theory Spec2Isabelle
  imports Complex_Main
begin

section \<open>Numbers and vectors\<close>

text \<open>
  Every \<^verbatim>\<open>number\<close> of the TypeScript sources and every \<^verbatim>\<open>float\<close> of the GLSL
  shaders is modelled as a \<^typ>\<open>real\<close>: the arithmetic is exact, without rounding,
  infinities or NaN.  Where the sources divide, the theorems below assume the divisor
  is not zero.  The shaders modelled are those of the crossfade and the displacement
  component.  The fragment shader of the noise-warp component is not: its displacement
  strength is a composition of \<^verbatim>\<open>sin\<close> and \<^verbatim>\<open>cos\<close> at multiples of the literal 3.14159,
  and whether that is 0 at the end of a transition is decided by the rounding of the
  GPU, which exact arithmetic does not show.
\<close>

type_synonym vec2 = "real \<times> real"

section \<open>Aspect fitter\<close>

text \<open>
  \<^verbatim>\<open>calculateFitParams\<close> is the same text in all three components
  (ThreeImageSlider.tsx 46-63, ThreeImageSlider2.tsx 80-97, and 50-67 of the noise-warp
  component ThreeImageSlider3, whose source is unnamed/part_000).
\<close>

record FitParams =
  scaleX :: real
  scaleY :: real
  offsetX :: real
  offsetY :: real

definition calculateFitParams :: "real \<Rightarrow> real \<Rightarrow> FitParams" where
  "calculateFitParams imageAspectRatio containerAspectRatio =
     (if imageAspectRatio > containerAspectRatio
      then \<lparr>scaleX = containerAspectRatio / imageAspectRatio, scaleY = 1,
            offsetX = 0, offsetY = 0\<rparr>
      else \<lparr>scaleX = 1, scaleY = imageAspectRatio / containerAspectRatio,
            offsetX = 0, offsetY = 0\<rparr>)"

section \<open>Transition scheduler\<close>

text \<open>
  The props of the crossfade component (ThreeImageSlider.tsx 13-20) that the model reads;
  the noise-warp component takes the same ones.
\<close>

record config =
  images :: "string list"
  width :: real
  height :: real
  autoPlayMs :: real
  crossfadeMs :: real

text \<open>
  The scheduler effect (ThreeImageSlider.tsx 226-259, noise-warp component 348-390) keeps
  \<^verbatim>\<open>start\<close> and \<^verbatim>\<open>isTransitioning\<close> in its closure, writes \<^verbatim>\<open>uniforms.uProgress.value\<close>
  and the React state \<^verbatim>\<open>index\<close>, and holds in \<^verbatim>\<open>raf\<close> the frame request it made last.
  A request is modelled by the callback it was made for; \<open>None\<close> is a request that was
  cancelled, or that fired without a new one being made.  The closure
  \<^verbatim>\<open>transitionStep\<close> of the noise-warp component carries the constant
  \<^verbatim>\<open>transitionStart\<close> it captured.  The index is \<open>None\<close> for NaN, which
  \<^verbatim>\<open>(i + 1) % images.length\<close> yields for an empty list.
\<close>

datatype callback = Step | TransitionStep real

record sched =
  start :: real
  isTransitioning :: bool
  uProgress :: real
  index :: "nat option"
  raf :: "callback option"

text \<open>The updater \<^verbatim>\<open>(i) => (i + 1) % images.length\<close> passed to \<^verbatim>\<open>setIndex\<close>.\<close>

definition advanceIndex :: "nat \<Rightarrow> nat option \<Rightarrow> nat option" where
  "advanceIndex n i =
     (case i of None \<Rightarrow> None
      | Some k \<Rightarrow> if n = 0 then None else Some ((k + 1) mod n))"

text \<open>The state when the effect has run: \<^verbatim>\<open>raf = requestAnimationFrame(step)\<close>.\<close>

definition initial :: sched where
  "initial = \<lparr>start = 0, isTransitioning = False, uProgress = 0, index = Some 0,
              raf = Some Step\<rparr>"

text \<open>
  \<^verbatim>\<open>step\<close> of the crossfade component (ThreeImageSlider.tsx 231-255).  The test
  \<^verbatim>\<open>if (!start)\<close> reads a start of 0 as unset.
\<close>

definition step :: "config \<Rightarrow> 'a sched_scheme \<Rightarrow> real \<Rightarrow> 'a sched_scheme" where
  "step cfg s t =
     (let s1 = (if start s = 0 then s\<lparr>start := t\<rparr> else s);
          elapsed = t - start s1;
          s2 = (if \<not> isTransitioning s1
                then (if elapsed \<ge> autoPlayMs cfg - crossfadeMs cfg
                      then s1\<lparr>isTransitioning := True, start := t\<rparr>
                      else s1)
                else (let progress = min (elapsed / crossfadeMs cfg) 1;
                          s3 = s1\<lparr>uProgress := progress\<rparr>
                      in if elapsed \<ge> crossfadeMs cfg
                         then s3\<lparr>start := t, uProgress := 0,
                                 index := advanceIndex (length (images cfg)) (index s3),
                                 isTransitioning := False\<rparr>
                         else s3))
      in s2\<lparr>raf := Some Step\<rparr>)"

text \<open>
  \<^verbatim>\<open>transitionStep\<close> and \<^verbatim>\<open>step\<close> of the noise-warp component (362-378 and 353-386).
  When \<^verbatim>\<open>step\<close> runs while a transition is under way, neither branch is taken and no
  frame is requested.
\<close>

definition transitionStep ::
  "config \<Rightarrow> real \<Rightarrow> 'a sched_scheme \<Rightarrow> real \<Rightarrow> 'a sched_scheme" where
  "transitionStep cfg transitionStart s transitionTime =
     (let transitionElapsed = transitionTime - transitionStart;
          progress = min (transitionElapsed / crossfadeMs cfg) 1;
          s1 = s\<lparr>uProgress := progress\<rparr>
      in if progress \<ge> 1
         then s1\<lparr>uProgress := 0,
                 index := advanceIndex (length (images cfg)) (index s1),
                 isTransitioning := False,
                 start := transitionTime,
                 raf := Some Step\<rparr>
         else s1\<lparr>raf := Some (TransitionStep transitionStart)\<rparr>)"

definition step_noise :: "config \<Rightarrow> 'a sched_scheme \<Rightarrow> real \<Rightarrow> 'a sched_scheme" where
  "step_noise cfg s t =
     (let s1 = (if start s = 0 then s\<lparr>start := t\<rparr> else s);
          elapsed = t - start s1
      in if \<not> isTransitioning s1 \<and> elapsed \<ge> autoPlayMs cfg - crossfadeMs cfg
         then s1\<lparr>isTransitioning := True, raf := Some (TransitionStep t)\<rparr>
         else if \<not> isTransitioning s1
         then s1\<lparr>uProgress := 0, raf := Some Step\<rparr>
         else s1\<lparr>raf := None\<rparr>)"

text \<open>
  One animation frame with timestamp \<open>t\<close>: the browser runs the callback that was
  requested, if any.  The crossfade component only ever requests \<^verbatim>\<open>step\<close>.
\<close>

definition frame :: "config \<Rightarrow> 'a sched_scheme \<Rightarrow> real \<Rightarrow> 'a sched_scheme" where
  "frame cfg s t =
     (case raf s of
        None \<Rightarrow> s
      | Some Step \<Rightarrow> step cfg s t
      | Some (TransitionStep transitionStart) \<Rightarrow> s)"

definition frame_noise :: "config \<Rightarrow> 'a sched_scheme \<Rightarrow> real \<Rightarrow> 'a sched_scheme" where
  "frame_noise cfg s t =
     (case raf s of
        None \<Rightarrow> s
      | Some Step \<Rightarrow> step_noise cfg s t
      | Some (TransitionStep transitionStart) \<Rightarrow> transitionStep cfg transitionStart s t)"

text \<open>
  A tick-driven simulation: the states after each of a list of frames, and the number of
  transitions completed on the way (frames at which \<^verbatim>\<open>isTransitioning\<close> falls back
  to false).
\<close>

fun states :: "('s \<Rightarrow> 'e \<Rightarrow> 's) \<Rightarrow> 's \<Rightarrow> 'e list \<Rightarrow> 's list" where
  "states f s [] = []"
| "states f s (t # ts) = f s t # states f (f s t) ts"

fun completions ::
  "('a sched_scheme \<Rightarrow> 'e \<Rightarrow> 'a sched_scheme) \<Rightarrow> 'a sched_scheme \<Rightarrow> 'e list \<Rightarrow> nat" where
  "completions f s [] = 0"
| "completions f s (t # ts) =
     (if isTransitioning s \<and> \<not> isTransitioning (f s t) then 1 else 0)
       + completions f (f s t) ts"

text \<open>In the noise-warp component \<^verbatim>\<open>transitionStep\<close> is only requested during a transition.\<close>

definition fadePending :: "'a sched_scheme \<Rightarrow> bool" where
  "fadePending s =
     (case raf s of Some (TransitionStep te) \<Rightarrow> isTransitioning s | _ \<Rightarrow> True)"

section \<open>Shader language\<close>

text \<open>
  The GLSL built-ins the fragment shaders use, on exact reals.  A \<^verbatim>\<open>vec2\<close> is a pair and
  a \<^verbatim>\<open>vec4\<close> a quadruple (r, g, b, a); arithmetic between vectors is componentwise, and
  a scalar operand applies to every component.
\<close>

type_synonym vec4 = "real \<times> real \<times> real \<times> real"

fun add2 :: "vec2 \<Rightarrow> vec2 \<Rightarrow> vec2" where
  "add2 (ax, ay) (bx, by) = (ax + bx, ay + by)"

fun mul2 :: "vec2 \<Rightarrow> vec2 \<Rightarrow> vec2" where
  "mul2 (ax, ay) (bx, by) = (ax * bx, ay * by)"

fun adds2 :: "vec2 \<Rightarrow> real \<Rightarrow> vec2" where
  "adds2 (ax, ay) k = (ax + k, ay + k)"

fun scale2 :: "vec2 \<Rightarrow> real \<Rightarrow> vec2" where
  "scale2 (ax, ay) k = (ax * k, ay * k)"

definition clamp :: "real \<Rightarrow> real \<Rightarrow> real \<Rightarrow> real" where
  "clamp x minVal maxVal = min (max x minVal) maxVal"

definition smoothstep :: "real \<Rightarrow> real \<Rightarrow> real \<Rightarrow> real" where
  "smoothstep edge0 edge1 x =
     (let t = clamp ((x - edge0) / (edge1 - edge0)) 0 1 in t * t * (3 - 2 * t))"

definition mix :: "real \<Rightarrow> real \<Rightarrow> real \<Rightarrow> real" where
  "mix x y a = x * (1 - a) + y * a"

fun mix4 :: "vec4 \<Rightarrow> vec4 \<Rightarrow> real \<Rightarrow> vec4" where
  "mix4 (xr, xg, xb, xa) (yr, yg, yb, ya) a = (mix xr yr a, mix xg yg a, mix xb yb a, mix xa ya a)"

fun channels :: "vec4 \<Rightarrow> real list" where
  "channels (r, g, b, a) = [r, g, b, a]"

text \<open>
  A texture is known by the URL it was loaded from (\<open>None\<close> for \<^verbatim>\<open>undefined\<close>, an
  index outside the image list) and its two filters; \<^verbatim>\<open>TextureLoader\<close> delivers it with
  the filters below.  What sampling a texture returns (the image, the filtering, the
  wrap mode, an unset sampler) is a parameter \<open>texture2D\<close> of every shader.
\<close>

datatype textureFilter = LinearFilter | LinearMipmapLinearFilter

datatype texture = Texture (src: "string option") (magFilter: textureFilter) (minFilter: textureFilter)

definition loadedTexture :: "string option \<Rightarrow> texture" where
  "loadedTexture url = Texture url LinearFilter LinearMipmapLinearFilter"

type_synonym sampler = "texture option \<Rightarrow> vec2 \<Rightarrow> vec4"

text \<open>
  The UV remap \<^verbatim>\<open>(vUv - 0.5) * scale + 0.5 + offset\<close> that each fragment shader writes
  out once per image.
\<close>

definition fitUV :: "vec2 \<Rightarrow> vec2 \<Rightarrow> vec2 \<Rightarrow> vec2" where
  "fitUV vUv scale offset = add2 (adds2 (mul2 (adds2 vUv (- 0.5)) scale) 0.5) offset"

section \<open>Crossfade and noise-warp components\<close>

text \<open>
  An image load (\<^verbatim>\<open>new Image()\<close>) ends in \<^verbatim>\<open>onload\<close>, with the image's width and
  height, or in \<^verbatim>\<open>onerror\<close>.  \<^verbatim>\<open>getImageAspectRatio\<close> (ThreeImageSlider.tsx 32-43,
  the same text in the other two components) resolves its promise in both handlers and
  never rejects it.
\<close>

datatype imageResult = Loaded real real | Errored

fun getImageAspectRatio :: "imageResult \<Rightarrow> real" where
  "getImageAspectRatio (Loaded w h) = w / h"
| "getImageAspectRatio Errored = 1.0"

text \<open>
  Requests in flight.  \<open>AspectRatios u1 u2\<close> is the \<^verbatim>\<open>Promise.all\<close> of the two
  aspect-ratio promises that \<^verbatim>\<open>loadCurrentImages\<close> awaits; \<open>CurrentTexture u1 u2\<close> is
  \<^verbatim>\<open>loader.load(images[index], ...)\<close> of the crossfade and noise-warp components, whose
  success callback goes on to load \<open>u2\<close>; \<open>NextTexture u2\<close> is that inner load;
  \<open>Texture1Load\<close> and \<open>Texture2Load\<close> are the two loads of \<^verbatim>\<open>loadCurrentImages\<close> in
  the displacement component.  The last four belong to that component too:
  \<open>IndexAspectRatios\<close> is the \<^verbatim>\<open>Promise.all\<close> that \<^verbatim>\<open>loadImagesForCurrentIndex\<close>
  awaits, \<open>PairTexture1 u n\<close> and \<open>PairTexture2 u n\<close> are its two texture loads, \<open>n\<close>
  telling which \<^verbatim>\<open>Promise.all(loadPromises)\<close> they belong to, and \<open>DispTexture\<close> is the
  load of the displacement image.  No \<^verbatim>\<open>loader.load\<close> call passes an error callback.
\<close>

datatype request =
    AspectRatios "string option" "string option"
  | CurrentTexture "string option" "string option"
  | NextTexture "string option"
  | Texture1Load "string option"
  | Texture2Load "string option"
  | IndexAspectRatios "string option" "string option"
  | PairTexture1 "string option" nat
  | PairTexture2 "string option" nat
  | DispTexture string

text \<open>
  The state of a mounted crossfade component: the scheduler's state, the render effect's
  frame request and start time (ThreeImageSlider.tsx 155-163), the uniforms that change
  after construction, and the requests in flight.
\<close>

record slider = sched +
  renderRaf :: bool
  renderStart :: real
  uTime :: real
  uTex1 :: "texture option"
  uTex2 :: "texture option"
  uImageAspectRatio1 :: real
  uImageAspectRatio2 :: real
  uImageScale1 :: vec2
  uImageScale2 :: vec2
  uImageOffset1 :: vec2
  uImageOffset2 :: vec2
  inflight :: "request list"

text \<open>
  The noise-warp component has the same state; its two further uniforms, the noise scale
  and intensity, never change and are not part of it.
\<close>

text \<open>\<^verbatim>\<open>images[i]\<close>: \<^verbatim>\<open>undefined\<close> outside the list and for NaN.\<close>

definition imageAt :: "config \<Rightarrow> nat option \<Rightarrow> string option" where
  "imageAt cfg i =
     (case i of None \<Rightarrow> None
      | Some k \<Rightarrow> if k < length (images cfg) then Some (images cfg ! k) else None)"

text \<open>
  \<^verbatim>\<open>loadCurrentImages\<close> (ThreeImageSlider.tsx 191-220, noise-warp component 313-342) up
  to its \<^verbatim>\<open>await\<close>, and from there on once both aspect-ratio promises have resolved.
\<close>

definition loadCurrentImages :: "config \<Rightarrow> 'a slider_scheme \<Rightarrow> 'a slider_scheme" where
  "loadCurrentImages cfg s =
     (let nextIndex = advanceIndex (length (images cfg)) (index s)
      in s\<lparr>inflight := inflight s @ [AspectRatios (imageAt cfg (index s)) (imageAt cfg nextIndex)]\<rparr>)"

definition loadCurrentImages_resume ::
  "config \<Rightarrow> string option \<Rightarrow> string option \<Rightarrow> imageResult \<Rightarrow> imageResult
     \<Rightarrow> 'a slider_scheme \<Rightarrow> 'a slider_scheme" where
  "loadCurrentImages_resume cfg url1 url2 r1 r2 s =
     (let aspectRatio1 = getImageAspectRatio r1;
          aspectRatio2 = getImageAspectRatio r2;
          containerAspectRatio = width cfg / height cfg;
          fitParams1 = calculateFitParams aspectRatio1 containerAspectRatio;
          fitParams2 = calculateFitParams aspectRatio2 containerAspectRatio
      in s\<lparr>uImageAspectRatio1 := aspectRatio1,
            uImageAspectRatio2 := aspectRatio2,
            uImageScale1 := (scaleX fitParams1, scaleY fitParams1),
            uImageScale2 := (scaleX fitParams2, scaleY fitParams2),
            uImageOffset1 := (offsetX fitParams1, offsetY fitParams1),
            uImageOffset2 := (offsetX fitParams2, offsetY fitParams2),
            inflight := inflight s @ [CurrentTexture url1 url2]\<rparr>)"

text \<open>
  What can happen to a mounted component.  \<open>Frame t now\<close> is an animation frame with
  timestamp \<open>t\<close>, during which \<^verbatim>\<open>performance.now()\<close> reads \<open>now\<close>; the render
  callback \<^verbatim>\<open>tick\<close> runs before the scheduler's, in the order of their effects.  A
  change of \<^verbatim>\<open>index\<close> re-runs the loading effect.  \<open>IntervalFired now\<close> is the
  browser running a \<^verbatim>\<open>setInterval\<close> callback at time \<open>now\<close>; only the displacement
  component sets one.  The
  other events settle a request in flight; a settlement of a request that is not in
  flight, or of the wrong kind, does not occur and changes nothing.  \<open>Unmount\<close> runs
  the two cleanup functions (ThreeImageSlider.tsx 179-186 and 258); the loading effect
  has none.
\<close>

datatype event =
    Frame real real
  | ImagesSettled request imageResult imageResult
  | TextureLoaded request
  | TextureFailed request
  | IntervalFired real
  | Unmount

definition tick :: "real \<Rightarrow> 'a slider_scheme \<Rightarrow> 'a slider_scheme" where
  "tick now s = s\<lparr>uTime := (now - renderStart s) / 1000, renderRaf := True\<rparr>"

definition unmount :: "'a slider_scheme \<Rightarrow> 'a slider_scheme" where
  "unmount s = s\<lparr>renderRaf := False, raf := None\<rparr>"

fun handle ::
  "(config \<Rightarrow> 'a slider_scheme \<Rightarrow> real \<Rightarrow> 'a slider_scheme) \<Rightarrow> config
     \<Rightarrow> 'a slider_scheme \<Rightarrow> event \<Rightarrow> 'a slider_scheme" where
  "handle sch cfg s (Frame t now) =
     (let s1 = (if renderRaf s then tick now s else s);
          s2 = sch cfg s1 t
      in if index s2 \<noteq> index s then loadCurrentImages cfg s2 else s2)"
| "handle sch cfg s (ImagesSettled r r1 r2) =
     (case r of
        AspectRatios url1 url2 \<Rightarrow>
          if r \<in> set (inflight s)
          then loadCurrentImages_resume cfg url1 url2 r1 r2 (s\<lparr>inflight := remove1 r (inflight s)\<rparr>)
          else s
      | _ \<Rightarrow> s)"
| "handle sch cfg s (TextureLoaded r) =
     (case r of
        CurrentTexture url1 url2 \<Rightarrow>
          if r \<in> set (inflight s)
          then s\<lparr>uTex1 := Some (loadedTexture url1),
                 inflight := remove1 r (inflight s) @ [NextTexture url2]\<rparr>
          else s
      | NextTexture url2 \<Rightarrow>
          if r \<in> set (inflight s)
          then s\<lparr>uTex2 := Some (loadedTexture url2), inflight := remove1 r (inflight s)\<rparr>
          else s
      | _ \<Rightarrow> s)"
| "handle sch cfg s (TextureFailed r) =
     (case r of
        CurrentTexture url1 url2 \<Rightarrow>
          if r \<in> set (inflight s) then s\<lparr>inflight := remove1 r (inflight s)\<rparr> else s
      | NextTexture url2 \<Rightarrow>
          if r \<in> set (inflight s) then s\<lparr>inflight := remove1 r (inflight s)\<rparr> else s
      | _ \<Rightarrow> s)"
| "handle sch cfg s (IntervalFired now) = s"
| "handle sch cfg s Unmount = unmount s"

text \<open>Kinds of events and requests, for stating what a run contains.\<close>

fun isTimerOrFrame :: "event \<Rightarrow> bool" where
  "isTimerOrFrame (Frame t now) = True"
| "isTimerOrFrame (IntervalFired now) = True"
| "isTimerOrFrame e = False"



text \<open>
  A component once its three effects have run, the render effect at time \<open>now\<close>
  (uniforms as created at ThreeImageSlider.tsx 65-82).
\<close>

definition mount :: "config \<Rightarrow> real \<Rightarrow> slider" where
  "mount cfg now =
     loadCurrentImages cfg
       \<lparr>start = 0, isTransitioning = False, uProgress = 0, index = Some 0, raf = Some Step,
        renderRaf = True, renderStart = now, uTime = 0,
        uTex1 = None, uTex2 = None,
        uImageAspectRatio1 = 1.0, uImageAspectRatio2 = 1.0,
        uImageScale1 = (1.0, 1.0), uImageScale2 = (1.0, 1.0),
        uImageOffset1 = (0.0, 0.0), uImageOffset2 = (0.0, 0.0),
        inflight = []\<rparr>"

text \<open>
  The fragment shader of the crossfade component (ThreeImageSlider.tsx 118-143), for
  the pixel with surface coordinate \<open>vUv\<close>.
\<close>

definition fragmentShader :: "sampler \<Rightarrow> 'a slider_scheme \<Rightarrow> vec2 \<Rightarrow> vec4" where
  "fragmentShader texture2D u vUv =
     (let uv1 = fitUV vUv (uImageScale1 u) (uImageOffset1 u);
          uv2 = fitUV vUv (uImageScale2 u) (uImageOffset2 u);
          c1 = texture2D (uTex1 u) uv1;
          c2 = texture2D (uTex2 u) uv2
      in mix4 c1 c2 (smoothstep 0.0 1.0 (uProgress u)))"

section \<open>Directional-displacement component\<close>

text \<open>
  The props of ThreeImageSlider2 that the model reads (ThreeImageSlider2.tsx 28-49);
  an optional prop that was not supplied is \<open>None\<close>.  The destructuring defaults are
  applied by the functions below.  The prop \<^verbatim>\<open>easing\<close> is the name of a gsap ease;
  \<open>easingProp\<close> is the function from [0, 1] that gsap resolves the name to.
\<close>

record props2 =
  imagesProp :: "string list option"
  image1Prop :: "string option"
  image2Prop :: "string option"
  displacementImageProp :: "string option"
  widthProp :: "real option"
  heightProp :: "real option"
  intensity1Prop :: "real option"
  intensity2Prop :: "real option"
  angleProp :: "real option"
  angle1Prop :: "real option"
  angle2Prop :: "real option"
  speedInProp :: "real option"
  easingProp :: "real \<Rightarrow> real"
  autoPlayProp :: "bool option"

definition orDefault :: "'a option \<Rightarrow> 'a \<Rightarrow> 'a" where
  "orDefault v d = (case v of None \<Rightarrow> d | Some x \<Rightarrow> x)"

text \<open>
  \<^verbatim>\<open>images || (image1 && image2 ? [image1, image2] : [])\<close>: an array is truthy even
  when empty, a string only when it is not empty.
\<close>

definition imageList :: "props2 \<Rightarrow> string list" where
  "imageList p =
     (case imagesProp p of
        Some l \<Rightarrow> l
      | None \<Rightarrow>
          (case (image1Prop p, image2Prop p) of
             (Some i1, Some i2) \<Rightarrow> if i1 \<noteq> [] \<and> i2 \<noteq> [] then [i1, i2] else []
           | _ \<Rightarrow> []))"

text \<open>The uniforms that the shader reads or the loaders write (ThreeImageSlider2.tsx 99-121).\<close>

record uniforms2 =
  intensity1 :: real
  intensity2 :: real
  dispFactor :: real
  angle1 :: real
  angle2 :: real
  texture1 :: "texture option"
  texture2 :: "texture option"
  disp :: "texture option"
  imageAspectRatio1 :: real
  imageAspectRatio2 :: real
  imageScale1 :: vec2
  imageScale2 :: vec2
  imageOffset1 :: vec2
  imageOffset2 :: vec2

text \<open>
  A tween of \<^verbatim>\<open>uniforms.dispFactor\<close> handed to gsap: the time it was created at, and the
  value it started from, which gsap reads when it renders the tween for the first time.
\<close>

record tween =
  tweenStart :: real
  tweenFrom :: "real option"

text \<open>
  The rest of the component's state: the React state \<^verbatim>\<open>currentIndex\<close> (\<open>None\<close> for
  NaN), the requests in flight, whether the render loop has a frame requested, whether
  the autoplay interval is set, whether React still has the component mounted, the
  tweens gsap is running, and for the \<^verbatim>\<open>Promise.all(loadPromises)\<close> of
  \<^verbatim>\<open>loadImagesForCurrentIndex\<close> the next free number and the numbers of those with one
  of their two promises resolved.
\<close>

record slider2 = uniforms2 +
  currentIndex :: "nat option"
  loads :: "request list"
  renderRaf2 :: bool
  autoPlayTimer :: bool
  mounted2 :: bool
  tweensRunning :: "tween list"
  halfDone :: "nat list"
  nextPair :: nat

text \<open>
  The component when it has been rendered and no effect has run yet: the uniforms of the
  \<^verbatim>\<open>useMemo\<close> (with \<^verbatim>\<open>angle1 ?? angle\<close> and \<^verbatim>\<open>angle2 ?? -angle * 3\<close>), index 0, nothing
  in flight, no frame requested, no interval set and no tween running.
\<close>

definition created2 :: "props2 \<Rightarrow> slider2" where
  "created2 p =
     (let angle = orDefault (angleProp p) (pi / 4)
      in \<lparr>intensity1 = orDefault (intensity1Prop p) 1,
          intensity2 = orDefault (intensity2Prop p) 1,
          dispFactor = 0.0,
          angle1 = orDefault (angle1Prop p) angle,
          angle2 = orDefault (angle2Prop p) (- angle * 3),
          texture1 = None, texture2 = None, disp = None,
          imageAspectRatio1 = 1.0, imageAspectRatio2 = 1.0,
          imageScale1 = (1.0, 1.0), imageScale2 = (1.0, 1.0),
          imageOffset1 = (0.0, 0.0), imageOffset2 = (0.0, 0.0),
          currentIndex = Some 0, loads = [], renderRaf2 = False, autoPlayTimer = False,
          mounted2 = False, tweensRunning = [], halfDone = [], nextPair = 0\<rparr>)"

text \<open>
  The fragment shader (ThreeImageSlider2.tsx 156-197).  A \<^verbatim>\<open>mat2\<close> is held as its two
  columns, the order in which the GLSL constructor takes its arguments.
\<close>

type_synonym mat2 = "vec2 \<times> vec2"

definition getRotM :: "real \<Rightarrow> mat2" where
  "getRotM angle = (let s = sin angle; c = cos angle in ((c, - s), (s, c)))"

fun mulMV :: "mat2 \<Rightarrow> vec2 \<Rightarrow> vec2" where
  "mulMV ((a, b), (c, d)) (x, y) = (a * x + c * y, b * x + d * y)"

definition dispVec :: "sampler \<Rightarrow> 'a uniforms2_scheme \<Rightarrow> vec2 \<Rightarrow> vec2" where
  "dispVec texture2D u vUv = (case texture2D (disp u) vUv of (r, g, b, a) \<Rightarrow> (r, g))"

definition distortedPosition1 :: "sampler \<Rightarrow> 'a uniforms2_scheme \<Rightarrow> vec2 \<Rightarrow> vec2" where
  "distortedPosition1 texture2D u vUv =
     (let uv1 = fitUV vUv (imageScale1 u) (imageOffset1 u)
      in add2 uv1
           (scale2 (scale2 (mulMV (getRotM (angle1 u)) (dispVec texture2D u vUv)) (intensity1 u))
              (dispFactor u)))"

definition distortedPosition2 :: "sampler \<Rightarrow> 'a uniforms2_scheme \<Rightarrow> vec2 \<Rightarrow> vec2" where
  "distortedPosition2 texture2D u vUv =
     (let uv2 = fitUV vUv (imageScale2 u) (imageOffset2 u)
      in add2 uv2
           (scale2 (scale2 (mulMV (getRotM (angle2 u)) (dispVec texture2D u vUv)) (intensity2 u))
              (1.0 - dispFactor u)))"

definition fragmentShader2 :: "sampler \<Rightarrow> 'a uniforms2_scheme \<Rightarrow> vec2 \<Rightarrow> vec4" where
  "fragmentShader2 texture2D u vUv =
     (let texture1' = texture2D (texture1 u) (distortedPosition1 texture2D u vUv);
          texture2' = texture2D (texture2 u) (distortedPosition2 texture2D u vUv)
      in mix4 texture1' texture2' (dispFactor u))"

text \<open>
  \<^verbatim>\<open>loadCurrentImages\<close> of the mount effect (ThreeImageSlider2.tsx 222-258) up to its
  \<^verbatim>\<open>await\<close> and from there on.  Both texture loads are issued one after the other,
  neither from the other's callback; each callback sets the two filters before storing
  the texture.
\<close>

definition imageAt2 :: "string list \<Rightarrow> nat option \<Rightarrow> string option" where
  "imageAt2 l i =
     (case i of None \<Rightarrow> None | Some k \<Rightarrow> if k < length l then Some (l ! k) else None)"

definition loadCurrentImages2 :: "props2 \<Rightarrow> slider2 \<Rightarrow> slider2" where
  "loadCurrentImages2 p s =
     (if length (imageList p) = 0 then s
      else let currentImg = imageAt2 (imageList p) (currentIndex s);
               nextImg = imageAt2 (imageList p)
                           (advanceIndex (length (imageList p)) (currentIndex s))
           in s\<lparr>loads := loads s @ [AspectRatios currentImg nextImg]\<rparr>)"

definition loadCurrentImages2_resume ::
  "props2 \<Rightarrow> string option \<Rightarrow> string option \<Rightarrow> imageResult \<Rightarrow> imageResult
     \<Rightarrow> slider2 \<Rightarrow> slider2" where
  "loadCurrentImages2_resume p currentImg nextImg r1 r2 s =
     (let aspectRatio1 = getImageAspectRatio r1;
          aspectRatio2 = getImageAspectRatio r2;
          containerAspectRatio = orDefault (widthProp p) 960 / orDefault (heightProp p) 540;
          fitParams1 = calculateFitParams aspectRatio1 containerAspectRatio;
          fitParams2 = calculateFitParams aspectRatio2 containerAspectRatio
      in s\<lparr>imageAspectRatio1 := aspectRatio1,
            imageAspectRatio2 := aspectRatio2,
            imageScale1 := (scaleX fitParams1, scaleY fitParams1),
            imageScale2 := (scaleX fitParams2, scaleY fitParams2),
            imageOffset1 := (offsetX fitParams1, offsetY fitParams1),
            imageOffset2 := (offsetX fitParams2, offsetY fitParams2),
            loads := loads s @ [Texture1Load currentImg, Texture2Load nextImg]\<rparr>)"

text \<open>
  \<^verbatim>\<open>loadImagesForCurrentIndex\<close> of the second effect (323-377), likewise in two parts.
  Its two loads resolve one promise each, and \<^verbatim>\<open>Promise.all(loadPromises)\<close> sets
  \<^verbatim>\<open>dispFactor\<close> back to 0 once both have resolved; \<open>pairResolved n\<close> is one of the two
  promises of the \<open>n\<close>-th such pair resolving.
\<close>

definition loadImagesForCurrentIndex :: "props2 \<Rightarrow> slider2 \<Rightarrow> slider2" where
  "loadImagesForCurrentIndex p s =
     (if length (imageList p) = 0 then s
      else let currentImg = imageAt2 (imageList p) (currentIndex s);
               nextImg = imageAt2 (imageList p)
                           (advanceIndex (length (imageList p)) (currentIndex s))
           in s\<lparr>loads := loads s @ [IndexAspectRatios currentImg nextImg]\<rparr>)"

definition loadImagesForCurrentIndex_resume ::
  "props2 \<Rightarrow> string option \<Rightarrow> string option \<Rightarrow> imageResult \<Rightarrow> imageResult
     \<Rightarrow> slider2 \<Rightarrow> slider2" where
  "loadImagesForCurrentIndex_resume p currentImg nextImg r1 r2 s =
     (let aspectRatio1 = getImageAspectRatio r1;
          aspectRatio2 = getImageAspectRatio r2;
          containerAspectRatio = orDefault (widthProp p) 960 / orDefault (heightProp p) 540;
          fitParams1 = calculateFitParams aspectRatio1 containerAspectRatio;
          fitParams2 = calculateFitParams aspectRatio2 containerAspectRatio
      in s\<lparr>imageAspectRatio1 := aspectRatio1,
            imageAspectRatio2 := aspectRatio2,
            imageScale1 := (scaleX fitParams1, scaleY fitParams1),
            imageScale2 := (scaleX fitParams2, scaleY fitParams2),
            imageOffset1 := (offsetX fitParams1, offsetY fitParams1),
            imageOffset2 := (offsetX fitParams2, offsetY fitParams2),
            loads := loads s @ [PairTexture1 currentImg (nextPair s),
                                PairTexture2 nextImg (nextPair s)],
            nextPair := nextPair s + 1\<rparr>)"

definition pairResolved :: "nat \<Rightarrow> slider2 \<Rightarrow> slider2" where
  "pairResolved n s =
     (if n \<in> set (halfDone s)
      then s\<lparr>dispFactor := 0, halfDone := remove1 n (halfDone s)\<rparr>
      else s\<lparr>halfDone := n # halfDone s\<rparr>)"

text \<open>
  The mount effect (123-320) without its WebGL setup: it loads the displacement image
  \<^verbatim>\<open>displacementImage || imageList[0] || ""\<close> when that is not empty, calls
  \<^verbatim>\<open>loadCurrentImages\<close>, requests the first frame of the render loop and calls
  \<^verbatim>\<open>startAutoPlay\<close> (273-288).  Its cleanup (299-306) cancels the frame request and
  clears the interval; it does not touch the tweens handed to gsap.
\<close>

definition displacementImg :: "props2 \<Rightarrow> string" where
  "displacementImg p =
     (let fallback = (case imageList p of [] \<Rightarrow> [] | x # xs \<Rightarrow> x)
      in case displacementImageProp p of
           None \<Rightarrow> fallback
         | Some d \<Rightarrow> if d \<noteq> [] then d else fallback)"

definition startAutoPlay :: "props2 \<Rightarrow> slider2 \<Rightarrow> slider2" where
  "startAutoPlay p s =
     (if orDefault (autoPlayProp p) False \<and> length (imageList p) > 1
      then s\<lparr>autoPlayTimer := True\<rparr> else s)"

definition mountEffect :: "props2 \<Rightarrow> slider2 \<Rightarrow> slider2" where
  "mountEffect p s =
     (let s1 = (if displacementImg p \<noteq> []
                then s\<lparr>loads := loads s @ [DispTexture (displacementImg p)]\<rparr> else s);
          s2 = loadCurrentImages2 p s1;
          s3 = s2\<lparr>renderRaf2 := True\<rparr>
      in startAutoPlay p s3)"

definition mountCleanup :: "slider2 \<Rightarrow> slider2" where
  "mountCleanup s = s\<lparr>renderRaf2 := False, autoPlayTimer := False\<rparr>"

text \<open>
  The component once both effects have run.  After a later render the second effect runs
  again because \<^verbatim>\<open>currentIndex\<close> has changed; the mount effect is cleaned up and run
  again only when its dependency \<^verbatim>\<open>imageList\<close> is a new array, which it is in every
  render when the prop \<^verbatim>\<open>images\<close> is not supplied.  A supplied \<^verbatim>\<open>images\<close> is taken to
  be the same array in every render.
\<close>

definition mount2 :: "props2 \<Rightarrow> slider2" where
  "mount2 p = loadImagesForCurrentIndex p (mountEffect p ((created2 p)\<lparr>mounted2 := True\<rparr>))"

definition rerender :: "props2 \<Rightarrow> slider2 \<Rightarrow> slider2" where
  "rerender p s =
     loadImagesForCurrentIndex p
       (if imagesProp p = None then mountEffect p (mountCleanup s) else s)"

text \<open>
  \<^verbatim>\<open>setCurrentIndex((prev) => (prev + 1) % imageList.length)\<close>, the \<^verbatim>\<open>onComplete\<close> of a
  tween: React drops the update of a component that is no longer mounted, and does not
  render again when the state keeps its value.
\<close>

definition onComplete :: "props2 \<Rightarrow> slider2 \<Rightarrow> slider2" where
  "onComplete p s =
     (let i = advanceIndex (length (imageList p)) (currentIndex s)
      in if \<not> mounted2 s \<or> i = currentIndex s then s
         else rerender p (s\<lparr>currentIndex := i\<rparr>))"

text \<open>
  gsap is not part of the repository.  The interval callback (275-286) calls
  \<^verbatim>\<open>gsap.to(uniforms.dispFactor, {duration: speedIn, value: 1, ease: easing, onComplete})\<close>;
  by gsap's documentation the tween then runs on gsap's own ticker, once per animation
  frame, until it is complete or killed: it writes
  from + (1 - from) * ease (elapsed / duration) to \<^verbatim>\<open>value\<close>, \<open>from\<close> being the value
  found at its first rendering, and once \<open>elapsed\<close> (in seconds) has reached the
  duration it writes the end value 1, calls \<^verbatim>\<open>onComplete\<close> and is done.  Nothing in the
  component kills a tween.  \<open>tweenRender\<close> is one tween at one tick; a tween that goes
  on is put back among the running ones.
\<close>

definition tweenRender :: "props2 \<Rightarrow> real \<Rightarrow> tween \<Rightarrow> slider2 \<Rightarrow> slider2" where
  "tweenRender p now tw s =
     (let elapsed = (now - tweenStart tw) / 1000;
          duration = orDefault (speedInProp p) 1.6;
          from = orDefault (tweenFrom tw) (dispFactor s)
      in if elapsed < 0 then s\<lparr>tweensRunning := tweensRunning s @ [tw]\<rparr>
         else if elapsed \<ge> duration then onComplete p (s\<lparr>dispFactor := 1\<rparr>)
         else s\<lparr>dispFactor := from + (1 - from) * easingProp p (elapsed / duration),
                tweensRunning := tweensRunning s @ [tw\<lparr>tweenFrom := Some from\<rparr>]\<rparr>)"

fun runTweens :: "props2 \<Rightarrow> real \<Rightarrow> tween list \<Rightarrow> slider2 \<Rightarrow> slider2" where
  "runTweens p now [] s = s"
| "runTweens p now (tw # tws) s = runTweens p now tws (tweenRender p now tw s)"

definition gsapTick :: "props2 \<Rightarrow> real \<Rightarrow> slider2 \<Rightarrow> slider2" where
  "gsapTick p now s = runTweens p now (tweensRunning s) (s\<lparr>tweensRunning := []\<rparr>)"

text \<open>
  The events of the displacement component.  On an animation frame gsap's ticker runs
  the tweens, and the render loop (262-269), when it has a frame requested, draws and
  requests the next one, which changes nothing in this state.  The interval callback
  starts a tween.  Unmounting runs the mount effect's cleanup; the second effect has
  none.
\<close>

fun handle2 :: "props2 \<Rightarrow> slider2 \<Rightarrow> event \<Rightarrow> slider2" where
  "handle2 p s (ImagesSettled r r1 r2) =
     (case r of
        AspectRatios url1 url2 \<Rightarrow>
          if r \<in> set (loads s)
          then loadCurrentImages2_resume p url1 url2 r1 r2 (s\<lparr>loads := remove1 r (loads s)\<rparr>)
          else s
      | IndexAspectRatios url1 url2 \<Rightarrow>
          if r \<in> set (loads s)
          then loadImagesForCurrentIndex_resume p url1 url2 r1 r2
                 (s\<lparr>loads := remove1 r (loads s)\<rparr>)
          else s
      | _ \<Rightarrow> s)"
| "handle2 p s (TextureLoaded r) =
     (case r of
        Texture1Load url \<Rightarrow>
          if r \<in> set (loads s)
          then s\<lparr>texture1 := Some (Texture url LinearFilter LinearFilter),
                 loads := remove1 r (loads s)\<rparr>
          else s
      | Texture2Load url \<Rightarrow>
          if r \<in> set (loads s)
          then s\<lparr>texture2 := Some (Texture url LinearFilter LinearFilter),
                 loads := remove1 r (loads s)\<rparr>
          else s
      | PairTexture1 url n \<Rightarrow>
          if r \<in> set (loads s)
          then pairResolved n
                 (s\<lparr>texture1 := Some (Texture url LinearFilter LinearFilter),
                    loads := remove1 r (loads s)\<rparr>)
          else s
      | PairTexture2 url n \<Rightarrow>
          if r \<in> set (loads s)
          then pairResolved n
                 (s\<lparr>texture2 := Some (Texture url LinearFilter LinearFilter),
                    loads := remove1 r (loads s)\<rparr>)
          else s
      | DispTexture url \<Rightarrow>
          if r \<in> set (loads s)
          then s\<lparr>disp := Some (Texture (Some url) LinearFilter LinearFilter),
                 loads := remove1 r (loads s)\<rparr>
          else s
      | _ \<Rightarrow> s)"
| "handle2 p s (TextureFailed r) =
     (case r of
        AspectRatios url1 url2 \<Rightarrow> s
      | IndexAspectRatios url1 url2 \<Rightarrow> s
      | CurrentTexture url1 url2 \<Rightarrow> s
      | NextTexture url2 \<Rightarrow> s
      | _ \<Rightarrow> if r \<in> set (loads s) then s\<lparr>loads := remove1 r (loads s)\<rparr> else s)"
| "handle2 p s (Frame t now) = gsapTick p now s"
| "handle2 p s (IntervalFired now) =
     (if autoPlayTimer s
      then s\<lparr>tweensRunning := tweensRunning s @ [\<lparr>tweenStart = now, tweenFrom = None\<rparr>]\<rparr>
      else s)"
| "handle2 p s Unmount = (mountCleanup s)\<lparr>mounted2 := False\<rparr>"

section \<open>Properties of the aspect fitter\<close>

lemma calculateFitParams_wider:
  "c < a \<Longrightarrow> calculateFitParams a c = \<lparr>scaleX = c / a, scaleY = 1, offsetX = 0, offsetY = 0\<rparr>"
  by (simp add: calculateFitParams_def)

lemma calculateFitParams_taller:
  "a \<le> c \<Longrightarrow> calculateFitParams a c = \<lparr>scaleX = 1, scaleY = a / c, offsetX = 0, offsetY = 0\<rparr>"
  by (simp add: calculateFitParams_def)

text \<open>
  Claim C3, as stated: exactly one of scaleX and scaleY is 1.0.  It fails when the two
  aspect ratios are equal: the else branch then computes scaleY = a / a = 1 next to
  scaleX = 1, so both scales are 1.0.
\<close>

theorem C3_both_scales_one_counterexample:
  "scaleX (calculateFitParams 1 1) = 1 \<and> scaleY (calculateFitParams 1 1) = 1"
  by (simp add: calculateFitParams_def)

text \<open>
  Claim C3, amended: for positive aspect ratios at least one of scaleX and scaleY is
  1.0, both lie in (0, 1], and both are 1.0 exactly when the two aspect ratios are
  equal; so exactly one of them is 1.0 whenever the ratios differ.
\<close>

theorem C3_one_scale_is_one:
  assumes "0 < a" and "0 < c"
  shows "(scaleX (calculateFitParams a c) = 1 \<or> scaleY (calculateFitParams a c) = 1)
       \<and> 0 < scaleX (calculateFitParams a c) \<and> scaleX (calculateFitParams a c) \<le> 1
       \<and> 0 < scaleY (calculateFitParams a c) \<and> scaleY (calculateFitParams a c) \<le> 1
       \<and> ((scaleX (calculateFitParams a c) = 1 \<and> scaleY (calculateFitParams a c) = 1)
            \<longleftrightarrow> a = c)
       \<and> (a \<noteq> c \<longrightarrow>
            (scaleX (calculateFitParams a c) = 1) \<noteq> (scaleY (calculateFitParams a c) = 1))"
proof (cases "c < a")
  case True
  with assms have "c / a < 1" "0 < c / a" by simp_all
  with True show ?thesis by (simp add: calculateFitParams_wider)
next
  case False
  then have le: "a \<le> c" by simp
  with assms have "a / c \<le> 1" "0 < a / c" by simp_all
  moreover from assms have "a / c = 1 \<longleftrightarrow> a = c" by auto
  ultimately show ?thesis using le by (simp add: calculateFitParams_taller)
qed

theorem C3_one_scale_is_one_witness:
  "(0::real) < 16 / 9 \<and> (0::real) < 4 / 3
   \<and> scaleX (calculateFitParams (16 / 9) (4 / 3)) = 3 / 4
   \<and> scaleY (calculateFitParams (16 / 9) (4 / 3)) = 1
   \<and> (scaleX (calculateFitParams (16 / 9) (4 / 3)) = 1)
       \<noteq> (scaleY (calculateFitParams (16 / 9) (4 / 3)) = 1)"
  using C3_one_scale_is_one [of "16 / 9" "4 / 3"]
  by (simp add: calculateFitParams_def)

text \<open>
  Claim C4: for positive aspect ratios a (image) and c (container), if a > c the fitter
  returns scaleY = 1 and scaleX = c / a < 1, otherwise scaleX = 1 and
  scaleY = a / c \<le> 1; both scales lie in (0, 1] and both offsets are 0.  The fitter is
  a total function of its two arguments and of nothing else.
\<close>

theorem C4_fit_params:
  assumes "0 < a" and "0 < c"
  shows "(if a > c
          then scaleY (calculateFitParams a c) = 1
             \<and> scaleX (calculateFitParams a c) = c / a
             \<and> scaleX (calculateFitParams a c) < 1
          else scaleX (calculateFitParams a c) = 1
             \<and> scaleY (calculateFitParams a c) = a / c
             \<and> scaleY (calculateFitParams a c) \<le> 1)
       \<and> 0 < scaleX (calculateFitParams a c) \<and> scaleX (calculateFitParams a c) \<le> 1
       \<and> 0 < scaleY (calculateFitParams a c) \<and> scaleY (calculateFitParams a c) \<le> 1
       \<and> offsetX (calculateFitParams a c) = 0
       \<and> offsetY (calculateFitParams a c) = 0"
proof (cases "c < a")
  case True
  with assms have "c / a < 1" "0 < c / a" by simp_all
  with True show ?thesis by (simp add: calculateFitParams_wider)
next
  case False
  then have le: "a \<le> c" by simp
  with assms have "a / c \<le> 1" "0 < a / c" by simp_all
  with le show ?thesis by (simp add: calculateFitParams_taller)
qed

theorem C4_fit_params_witness:
  "(0::real) < 1 \<and> (0::real) < 16 / 9
   \<and> calculateFitParams 1 (16 / 9)
       = \<lparr>scaleX = 1, scaleY = 9 / 16, offsetX = 0, offsetY = 0\<rparr>"
  using C4_fit_params [of 1 "16 / 9"]
  by (simp add: calculateFitParams_def)

section \<open>Properties of the transition scheduler\<close>

lemma states_append:
  "states f s (xs @ ys) = states f s xs @ states f (foldl f s xs) ys"
  by (induction xs arbitrary: s) simp_all

lemma foldl_last_states:
  "ts \<noteq> [] \<Longrightarrow> foldl f s ts = last (states f s ts)"
proof (induction ts arbitrary: s)
  case Nil
  then show ?case by simp
next
  case (Cons t ts)
  show ?case
  proof (cases ts)
    case Nil
    then show ?thesis by simp
  next
    case (Cons a list)
    with Cons.IH [of "f s t"] show ?thesis by simp
  qed
qed

lemma states_length [simp]: "length (states f s ts) = length ts"
  by (induction ts arbitrary: s) simp_all

lemma states_fixed:
  "(\<And>t. t \<in> set ts \<Longrightarrow> f s t = s) \<Longrightarrow> states f s ts = replicate (length ts) s"
  by (induction ts) simp_all

lemma foldl_fixed:
  "(\<And>t. t \<in> set ts \<Longrightarrow> f s t = s) \<Longrightarrow> foldl f s ts = s"
  by (induction ts) simp_all

subsection \<open>Single frames of the crossfade scheduler\<close>

lemma frame_hold:
  assumes "\<not> isTransitioning s" "raf s = Some Step" "start s \<noteq> 0"
    and "t - start s < autoPlayMs cfg - crossfadeMs cfg"
  shows "frame cfg s t = s"
  using assms by (simp add: frame_def step_def)

lemma frame_first:
  assumes "\<not> isTransitioning s" "raf s = Some Step" "start s = 0"
    and "0 < autoPlayMs cfg - crossfadeMs cfg"
  shows "frame cfg s t = s\<lparr>start := t\<rparr>"
  using assms by (simp add: frame_def step_def)

lemma frame_enter:
  assumes "\<not> isTransitioning s" "raf s = Some Step"
    and "t - (if start s = 0 then t else start s) \<ge> autoPlayMs cfg - crossfadeMs cfg"
  shows "frame cfg s t = s\<lparr>isTransitioning := True, start := t\<rparr>"
  using assms by (cases "start s = 0") (simp_all add: frame_def step_def Let_def)

lemma frame_progress:
  assumes "isTransitioning s" "raf s = Some Step" "start s \<noteq> 0"
    and "t - start s < crossfadeMs cfg"
  shows "frame cfg s t = s\<lparr>uProgress := min ((t - start s) / crossfadeMs cfg) 1\<rparr>"
  using assms by (simp add: frame_def step_def)

lemma frame_complete:
  assumes "isTransitioning s" "raf s = Some Step" "start s \<noteq> 0"
    and "t - start s \<ge> crossfadeMs cfg"
  shows "frame cfg s t = s\<lparr>start := t, uProgress := 0,
           index := advanceIndex (length (images cfg)) (index s), isTransitioning := False\<rparr>"
  using assms by (simp add: frame_def step_def)

subsection \<open>Single frames of the noise-warp scheduler\<close>

lemma frame_noise_hold:
  assumes "\<not> isTransitioning s" "raf s = Some Step" "start s \<noteq> 0" "uProgress s = 0"
    and "t - start s < autoPlayMs cfg - crossfadeMs cfg"
  shows "frame_noise cfg s t = s"
  using assms by (simp add: frame_noise_def step_noise_def)

lemma frame_noise_first:
  assumes "\<not> isTransitioning s" "raf s = Some Step" "start s = 0" "uProgress s = 0"
    and "0 < autoPlayMs cfg - crossfadeMs cfg"
  shows "frame_noise cfg s t = s\<lparr>start := t\<rparr>"
  using assms by (simp add: frame_noise_def step_noise_def)

lemma frame_noise_enter:
  assumes "\<not> isTransitioning s" "raf s = Some Step"
    and "t - (if start s = 0 then t else start s) \<ge> autoPlayMs cfg - crossfadeMs cfg"
  shows "frame_noise cfg s t = s\<lparr>start := (if start s = 0 then t else start s),
           isTransitioning := True, raf := Some (TransitionStep t)\<rparr>"
  using assms by (cases "start s = 0") (simp_all add: frame_noise_def step_noise_def Let_def)

lemma frame_noise_progress:
  assumes "raf s = Some (TransitionStep te)" "0 < crossfadeMs cfg"
    and "t - te < crossfadeMs cfg"
  shows "frame_noise cfg s t = s\<lparr>uProgress := min ((t - te) / crossfadeMs cfg) 1\<rparr>"
  using assms by (simp add: frame_noise_def transitionStep_def)

lemma frame_noise_complete:
  assumes "raf s = Some (TransitionStep te)" "0 < crossfadeMs cfg"
    and "t - te \<ge> crossfadeMs cfg"
  shows "frame_noise cfg s t = s\<lparr>uProgress := 0,
           index := advanceIndex (length (images cfg)) (index s), isTransitioning := False,
           start := t, raf := Some Step\<rparr>"
  using assms by (simp add: frame_noise_def transitionStep_def)


subsection \<open>Phases of the crossfade scheduler\<close>

lemma idle_phase:
  assumes "\<not> isTransitioning s" "raf s = Some Step"
    and s0: "s0 = (if start s = 0 then hd (idle @ [te]) else start s)" "s0 \<noteq> 0"
    and idle: "\<forall>t\<in>set idle. t - s0 < autoPlayMs cfg - crossfadeMs cfg"
  shows "states (frame cfg) s idle = replicate (length idle) (s\<lparr>start := s0\<rparr>)"
    and "foldl (frame cfg) s idle = (if idle = [] then s else s\<lparr>start := s0\<rparr>)"
proof -
  let ?u = "s\<lparr>start := s0\<rparr>"
  have fixed: "frame cfg ?u t = ?u" if "t \<in> set idle" for t
    using that assms by (intro frame_hold) simp_all
  have first: "frame cfg s t1 = ?u" if "idle = t1 # rest" for t1 rest
  proof (cases "start s = 0")
    case True
    with that s0 have "s0 = t1" by simp
    moreover from that idle have "t1 - s0 < autoPlayMs cfg - crossfadeMs cfg" by simp
    ultimately show ?thesis using True assms(1,2) by (simp add: frame_first)
  next
    case False
    with s0 have "s0 = start s" by simp
    moreover from that idle have "t1 - s0 < autoPlayMs cfg - crossfadeMs cfg" by simp
    ultimately show ?thesis using False assms(1,2) by (simp add: frame_hold)
  qed
  show "states (frame cfg) s idle = replicate (length idle) ?u"
  proof (cases idle)
    case Nil
    then show ?thesis by simp
  next
    case (Cons t1 rest)
    have "states (frame cfg) ?u rest = replicate (length rest) ?u"
      using fixed Cons by (intro states_fixed) simp
    with first [OF Cons] Cons show ?thesis by simp
  qed
  show "foldl (frame cfg) s idle = (if idle = [] then s else ?u)"
  proof (cases idle)
    case Nil
    then show ?thesis by simp
  next
    case (Cons t1 rest)
    have "foldl (frame cfg) ?u rest = ?u"
      using fixed Cons by (intro foldl_fixed) simp
    with first [OF Cons] Cons show ?thesis by simp
  qed
qed

lemma idle_exit:
  assumes "\<not> isTransitioning s" "raf s = Some Step"
    and s0: "s0 = (if start s = 0 then hd (idle @ [te]) else start s)" "s0 \<noteq> 0"
    and te: "te - s0 \<ge> autoPlayMs cfg - crossfadeMs cfg"
  shows "frame cfg (if idle = [] then s else s\<lparr>start := s0\<rparr>) te
         = s\<lparr>isTransitioning := True, start := te\<rparr>"
proof (cases "idle = []")
  case True
  with s0 have "s0 = (if start s = 0 then te else start s)" by simp
  with te assms(1,2) True show ?thesis by (simp add: frame_enter)
next
  case False
  have "frame cfg (s\<lparr>start := s0\<rparr>) te = s\<lparr>start := s0\<rparr>\<lparr>isTransitioning := True, start := te\<rparr>"
    using assms(1,2) s0(2) te by (intro frame_enter) simp_all
  with False show ?thesis by simp
qed

lemma transition_phase:
  assumes "isTransitioning e" "raf e = Some Step" "start e = te" "te \<noteq> 0"
    and "\<forall>t\<in>set fade. t - te < crossfadeMs cfg"
  shows "states (frame cfg) e fade
           = map (\<lambda>t. e\<lparr>uProgress := min ((t - te) / crossfadeMs cfg) 1\<rparr>) fade
       \<and> (\<exists>x. foldl (frame cfg) e fade = e\<lparr>uProgress := x\<rparr>)"
  using assms
proof (induction fade arbitrary: e)
  case Nil
  have "e = e\<lparr>uProgress := uProgress e\<rparr>" by simp
  then have "\<exists>x. e = e\<lparr>uProgress := x\<rparr>" by (rule exI)
  then show ?case by simp
next
  case (Cons t ts)
  let ?e = "e\<lparr>uProgress := min ((t - te) / crossfadeMs cfg) 1\<rparr>"
  have f: "frame cfg e t = ?e"
    using Cons.prems by (simp add: frame_progress)
  have "states (frame cfg) ?e ts
           = map (\<lambda>t. ?e\<lparr>uProgress := min ((t - te) / crossfadeMs cfg) 1\<rparr>) ts
       \<and> (\<exists>x. foldl (frame cfg) ?e ts = ?e\<lparr>uProgress := x\<rparr>)"
    using Cons.prems by (intro Cons.IH) simp_all
  with f show ?case by simp
qed

lemma cycle_states:
  assumes "\<not> isTransitioning s" "raf s = Some Step"
    and s0: "s0 = (if start s = 0 then hd (idle @ [te]) else start s)" "s0 \<noteq> 0"
    and "te \<noteq> 0"
    and idle: "\<forall>t\<in>set idle. t - s0 < autoPlayMs cfg - crossfadeMs cfg"
    and te: "te - s0 \<ge> autoPlayMs cfg - crossfadeMs cfg"
    and fade: "\<forall>t\<in>set fade. t - te < crossfadeMs cfg"
    and tc: "tc - te \<ge> crossfadeMs cfg"
  shows "states (frame cfg) s (idle @ te # fade @ [tc])
         = replicate (length idle) (s\<lparr>start := s0\<rparr>)
           @ s\<lparr>isTransitioning := True, start := te\<rparr>
           # map (\<lambda>t. s\<lparr>isTransitioning := True, start := te,
                         uProgress := min ((t - te) / crossfadeMs cfg) 1\<rparr>) fade
           @ [s\<lparr>start := tc, isTransitioning := False, uProgress := 0,
               index := advanceIndex (length (images cfg)) (index s), raf := Some Step\<rparr>]"
proof -
  let ?e = "s\<lparr>isTransitioning := True, start := te\<rparr>"
  note ip = idle_phase [OF assms(1,2) s0 idle]
  have ex: "frame cfg (foldl (frame cfg) s idle) te = ?e"
    using idle_exit [OF assms(1,2) s0 te] ip(2) by simp
  have tp: "states (frame cfg) ?e fade
           = map (\<lambda>t. ?e\<lparr>uProgress := min ((t - te) / crossfadeMs cfg) 1\<rparr>) fade
       \<and> (\<exists>x. foldl (frame cfg) ?e fade = ?e\<lparr>uProgress := x\<rparr>)"
    using assms(2,5) fade by (intro transition_phase) simp_all
  then obtain x where x: "foldl (frame cfg) ?e fade = ?e\<lparr>uProgress := x\<rparr>" by blast
  have "frame cfg (?e\<lparr>uProgress := x\<rparr>) tc
        = ?e\<lparr>uProgress := x\<rparr>\<lparr>start := tc, uProgress := 0,
              index := advanceIndex (length (images cfg)) (index (?e\<lparr>uProgress := x\<rparr>)),
              isTransitioning := False\<rparr>"
    using assms(2,5) tc by (intro frame_complete) simp_all
  also have "\<dots> = s\<lparr>start := tc, isTransitioning := False, uProgress := 0,
               index := advanceIndex (length (images cfg)) (index s), raf := Some Step\<rparr>"
    using assms(2) by simp
  finally have fin: "frame cfg (foldl (frame cfg) ?e fade) tc
        = s\<lparr>start := tc, isTransitioning := False, uProgress := 0,
               index := advanceIndex (length (images cfg)) (index s), raf := Some Step\<rparr>"
    using x by simp
  show ?thesis
    using ip(1) ex tp fin by (simp add: states_append)
qed


subsection \<open>Phases of the noise-warp scheduler\<close>

lemma idle_phase_noise:
  assumes "\<not> isTransitioning s" "raf s = Some Step" "uProgress s = 0"
    and s0: "s0 = (if start s = 0 then hd (idle @ [te]) else start s)" "s0 \<noteq> 0"
    and idle: "\<forall>t\<in>set idle. t - s0 < autoPlayMs cfg - crossfadeMs cfg"
  shows "states (frame_noise cfg) s idle = replicate (length idle) (s\<lparr>start := s0\<rparr>)"
    and "foldl (frame_noise cfg) s idle = (if idle = [] then s else s\<lparr>start := s0\<rparr>)"
proof -
  let ?u = "s\<lparr>start := s0\<rparr>"
  have fixed: "frame_noise cfg ?u t = ?u" if "t \<in> set idle" for t
    using that assms by (intro frame_noise_hold) simp_all
  have first: "frame_noise cfg s t1 = ?u" if "idle = t1 # rest" for t1 rest
  proof (cases "start s = 0")
    case True
    with that s0 have "s0 = t1" by simp
    moreover from that idle have "t1 - s0 < autoPlayMs cfg - crossfadeMs cfg" by simp
    ultimately show ?thesis using True assms(1,2,3) by (simp add: frame_noise_first)
  next
    case False
    with s0 have "s0 = start s" by simp
    moreover from that idle have "t1 - s0 < autoPlayMs cfg - crossfadeMs cfg" by simp
    ultimately show ?thesis using False assms(1,2,3) by (simp add: frame_noise_hold)
  qed
  show "states (frame_noise cfg) s idle = replicate (length idle) ?u"
  proof (cases idle)
    case Nil
    then show ?thesis by simp
  next
    case (Cons t1 rest)
    have "states (frame_noise cfg) ?u rest = replicate (length rest) ?u"
      using fixed Cons by (intro states_fixed) simp
    with first [OF Cons] Cons show ?thesis by simp
  qed
  show "foldl (frame_noise cfg) s idle = (if idle = [] then s else ?u)"
  proof (cases idle)
    case Nil
    then show ?thesis by simp
  next
    case (Cons t1 rest)
    have "foldl (frame_noise cfg) ?u rest = ?u"
      using fixed Cons by (intro foldl_fixed) simp
    with first [OF Cons] Cons show ?thesis by simp
  qed
qed

lemma idle_exit_noise:
  assumes "\<not> isTransitioning s" "raf s = Some Step"
    and s0: "s0 = (if start s = 0 then hd (idle @ [te]) else start s)" "s0 \<noteq> 0"
    and te: "te - s0 \<ge> autoPlayMs cfg - crossfadeMs cfg"
  shows "frame_noise cfg (if idle = [] then s else s\<lparr>start := s0\<rparr>) te
         = s\<lparr>start := s0, isTransitioning := True, raf := Some (TransitionStep te)\<rparr>"
proof (cases "idle = []")
  case True
  with s0 have eq: "s0 = (if start s = 0 then te else start s)" by simp
  with te have "te - (if start s = 0 then te else start s)
                  \<ge> autoPlayMs cfg - crossfadeMs cfg" by simp
  from frame_noise_enter [OF assms(1,2) this] eq True show ?thesis by simp
next
  case False
  have "frame_noise cfg (s\<lparr>start := s0\<rparr>) te
        = s\<lparr>start := s0\<rparr>\<lparr>start := (if start (s\<lparr>start := s0\<rparr>) = 0 then te
                                        else start (s\<lparr>start := s0\<rparr>)),
             isTransitioning := True, raf := Some (TransitionStep te)\<rparr>"
    using assms(1,2) s0(2) te by (intro frame_noise_enter) simp_all
  with False s0(2) show ?thesis by simp
qed

lemma transition_phase_noise:
  assumes "raf e = Some (TransitionStep te)" "0 < crossfadeMs cfg"
    and "\<forall>t\<in>set fade. t - te < crossfadeMs cfg"
  shows "states (frame_noise cfg) e fade
           = map (\<lambda>t. e\<lparr>uProgress := min ((t - te) / crossfadeMs cfg) 1\<rparr>) fade
       \<and> (\<exists>x. foldl (frame_noise cfg) e fade = e\<lparr>uProgress := x\<rparr>)"
  using assms
proof (induction fade arbitrary: e)
  case Nil
  have "e = e\<lparr>uProgress := uProgress e\<rparr>" by simp
  then have "\<exists>x. e = e\<lparr>uProgress := x\<rparr>" by (rule exI)
  then show ?case by simp
next
  case (Cons t ts)
  let ?e = "e\<lparr>uProgress := min ((t - te) / crossfadeMs cfg) 1\<rparr>"
  have f: "frame_noise cfg e t = ?e"
    using Cons.prems by (simp add: frame_noise_progress)
  have "states (frame_noise cfg) ?e ts
           = map (\<lambda>t. ?e\<lparr>uProgress := min ((t - te) / crossfadeMs cfg) 1\<rparr>) ts
       \<and> (\<exists>x. foldl (frame_noise cfg) ?e ts = ?e\<lparr>uProgress := x\<rparr>)"
    using Cons.prems by (intro Cons.IH) simp_all
  with f show ?case by simp
qed

lemma cycle_states_noise:
  assumes "\<not> isTransitioning s" "raf s = Some Step" "uProgress s = 0"
    and s0: "s0 = (if start s = 0 then hd (idle @ [te]) else start s)" "s0 \<noteq> 0"
    and T: "0 < crossfadeMs cfg"
    and idle: "\<forall>t\<in>set idle. t - s0 < autoPlayMs cfg - crossfadeMs cfg"
    and te: "te - s0 \<ge> autoPlayMs cfg - crossfadeMs cfg"
    and fade: "\<forall>t\<in>set fade. t - te < crossfadeMs cfg"
    and tc: "tc - te \<ge> crossfadeMs cfg"
  shows "states (frame_noise cfg) s (idle @ te # fade @ [tc])
         = replicate (length idle) (s\<lparr>start := s0\<rparr>)
           @ s\<lparr>start := s0, isTransitioning := True, raf := Some (TransitionStep te)\<rparr>
           # map (\<lambda>t. s\<lparr>start := s0, isTransitioning := True,
                         raf := Some (TransitionStep te),
                         uProgress := min ((t - te) / crossfadeMs cfg) 1\<rparr>) fade
           @ [s\<lparr>start := tc, isTransitioning := False, uProgress := 0,
               index := advanceIndex (length (images cfg)) (index s), raf := Some Step\<rparr>]"
proof -
  let ?e = "s\<lparr>start := s0, isTransitioning := True, raf := Some (TransitionStep te)\<rparr>"
  note ip = idle_phase_noise [OF assms(1,2,3) s0 idle]
  have ex: "frame_noise cfg (foldl (frame_noise cfg) s idle) te = ?e"
    using idle_exit_noise [OF assms(1,2) s0 te] ip(2) by simp
  have tp: "states (frame_noise cfg) ?e fade
           = map (\<lambda>t. ?e\<lparr>uProgress := min ((t - te) / crossfadeMs cfg) 1\<rparr>) fade
       \<and> (\<exists>x. foldl (frame_noise cfg) ?e fade = ?e\<lparr>uProgress := x\<rparr>)"
    using T fade by (intro transition_phase_noise) simp_all
  then obtain x where x: "foldl (frame_noise cfg) ?e fade = ?e\<lparr>uProgress := x\<rparr>" by blast
  have "frame_noise cfg (?e\<lparr>uProgress := x\<rparr>) tc
        = ?e\<lparr>uProgress := x\<rparr>\<lparr>uProgress := 0,
              index := advanceIndex (length (images cfg)) (index (?e\<lparr>uProgress := x\<rparr>)),
              isTransitioning := False, start := tc, raf := Some Step\<rparr>"
    using T tc by (intro frame_noise_complete) simp_all
  also have "\<dots> = s\<lparr>start := tc, isTransitioning := False, uProgress := 0,
               index := advanceIndex (length (images cfg)) (index s), raf := Some Step\<rparr>"
    by simp
  finally have fin: "frame_noise cfg (foldl (frame_noise cfg) ?e fade) tc
        = s\<lparr>start := tc, isTransitioning := False, uProgress := 0,
               index := advanceIndex (length (images cfg)) (index s), raf := Some Step\<rparr>"
    using x by simp
  show ?thesis
    using ip(1) ex tp fin by (simp add: states_append)
qed

lemma progress_sorted:
  assumes "0 < (T::real)" "sorted (te # fade)"
  shows "sorted (0 # map (\<lambda>t. min ((t - te) / T) 1) fade)"
proof -
  have mono: "min ((a - te) / T) 1 \<le> min ((b - te) / T) 1" if "a \<le> b" for a b
    using that assms(1) by (simp add: divide_right_mono min.coboundedI1 min_le_iff_disj)
  have "sorted_wrt (\<lambda>a b. min ((a - te) / T) 1 \<le> min ((b - te) / T) 1) (te # fade)"
    by (rule sorted_wrt_mono_rel [OF _ assms(2)]) (rule mono)
  then have "sorted (map (\<lambda>t. min ((t - te) / T) 1) (te # fade))"
    by (simp only: sorted_map)
  then show ?thesis by simp
qed


subsection \<open>Index advancement\<close>

lemma advanceIndex_mod:
  "0 < n \<Longrightarrow> advanceIndex n (Some (j mod n)) = Some (Suc j mod n)"
  by (simp add: advanceIndex_def mod_Suc_eq)

lemma frame_index:
  "index (frame cfg s t)
   = (if isTransitioning s \<and> \<not> isTransitioning (frame cfg s t)
      then advanceIndex (length (images cfg)) (index s) else index s)"
  by (simp add: frame_def step_def Let_def split: option.splits callback.splits)

lemma frame_noise_fadePending:
  "fadePending s \<Longrightarrow> fadePending (frame_noise cfg s t)"
  by (auto simp add: fadePending_def frame_noise_def step_noise_def transitionStep_def Let_def
      split: option.splits callback.splits if_splits)

lemma frame_noise_index:
  "fadePending s \<Longrightarrow> index (frame_noise cfg s t)
   = (if isTransitioning s \<and> \<not> isTransitioning (frame_noise cfg s t)
      then advanceIndex (length (images cfg)) (index s) else index s)"
  by (auto simp add: fadePending_def frame_noise_def step_noise_def transitionStep_def Let_def
      split: option.splits callback.splits)

lemma index_completions:
  assumes "0 < length (images cfg)" "index s = Some (j mod length (images cfg))"
  shows "index (foldl (frame cfg) s ts)
         = Some ((j + completions (frame cfg) s ts) mod length (images cfg))"
  using assms(2)
proof (induction ts arbitrary: s j)
  case Nil
  then show ?case by simp
next
  case (Cons t ts)
  show ?case
  proof (cases "isTransitioning s \<and> \<not> isTransitioning (frame cfg s t)")
    case True
    then have "index (frame cfg s t) = Some (Suc j mod length (images cfg))"
      using Cons.prems assms(1) by (simp add: frame_index advanceIndex_mod)
    from Cons.IH [OF this] True show ?thesis by simp
  next
    case False
    then have "index (frame cfg s t) = Some (j mod length (images cfg))"
      using Cons.prems by (auto simp add: frame_index)
    from Cons.IH [OF this] False show ?thesis by auto
  qed
qed

lemma index_completions_noise:
  assumes "0 < length (images cfg)" "index s = Some (j mod length (images cfg))" "fadePending s"
  shows "index (foldl (frame_noise cfg) s ts)
         = Some ((j + completions (frame_noise cfg) s ts) mod length (images cfg))"
  using assms(2,3)
proof (induction ts arbitrary: s j)
  case Nil
  then show ?case by simp
next
  case (Cons t ts)
  note fp = frame_noise_fadePending [OF Cons.prems(2), of cfg t]
  show ?case
  proof (cases "isTransitioning s \<and> \<not> isTransitioning (frame_noise cfg s t)")
    case True
    then have "index (frame_noise cfg s t) = Some (Suc j mod length (images cfg))"
      using Cons.prems assms(1) by (simp add: frame_noise_index advanceIndex_mod)
    from Cons.IH [OF this fp] True show ?thesis by simp
  next
    case False
    then have "index (frame_noise cfg s t) = Some (j mod length (images cfg))"
      using Cons.prems by (auto simp add: frame_noise_index)
    from Cons.IH [OF this fp] False show ?thesis by auto
  qed
qed

lemma frame_images_irrelevant:
  "\<exists>y. frame (cfg\<lparr>images := imgs\<rparr>) (s\<lparr>index := x\<rparr>) t = (frame cfg s t)\<lparr>index := y\<rparr>"
proof -
  have "frame (cfg\<lparr>images := imgs\<rparr>) (s\<lparr>index := x\<rparr>) t
        = (frame cfg s t)\<lparr>index := index (frame (cfg\<lparr>images := imgs\<rparr>) (s\<lparr>index := x\<rparr>) t)\<rparr>"
    by (simp add: frame_def step_def Let_def split: option.splits callback.splits)
  then show ?thesis by (rule exI)
qed

lemma frame_noise_images_irrelevant:
  "\<exists>y. frame_noise (cfg\<lparr>images := imgs\<rparr>) (s\<lparr>index := x\<rparr>) t
       = (frame_noise cfg s t)\<lparr>index := y\<rparr>"
proof -
  have "frame_noise (cfg\<lparr>images := imgs\<rparr>) (s\<lparr>index := x\<rparr>) t
        = (frame_noise cfg s t)\<lparr>index := index (frame_noise (cfg\<lparr>images := imgs\<rparr>) (s\<lparr>index := x\<rparr>) t)\<rparr>"
    by (simp add: frame_noise_def step_noise_def transitionStep_def Let_def
        split: option.splits callback.splits)
  then show ?thesis by (rule exI)
qed

lemma completions_images_irrelevant:
  assumes "\<And>s x t. \<exists>y. f' (s\<lparr>index := x\<rparr>) t = (f s t)\<lparr>index := y\<rparr>"
  shows "completions f' (s\<lparr>index := x\<rparr>) ts = completions f s ts"
proof (induction ts arbitrary: s x)
  case Nil
  then show ?case by simp
next
  case (Cons t ts)
  from assms obtain y where y: "f' (s\<lparr>index := x\<rparr>) t = (f s t)\<lparr>index := y\<rparr>" by blast
  with Cons.IH [where s = "f s t" and x = y] show ?case by simp
qed


text \<open>
  Claim C1: a tick-driven simulation of either scheduler (crossfade or noise-warp), with a
  positive transition duration, started in an idle state with progress 0 (the initial
  state is one, its start being unset) and fed frames with positive timestamps.
  Let \<open>s0\<close> be the time the idle phase is measured from: the recorded start, or the
  first frame when the start is unset.  While frames arrive less than
  autoPlayMs - crossfadeMs after \<open>s0\<close> (the list \<open>idle\<close>) the scheduler stays idle
  with progress 0; the first frame \<open>te\<close> at or past that bound enters the
  transitioning phase, still with progress 0; every later frame \<open>t\<close> less than
  crossfadeMs after \<open>te\<close> (the list \<open>fade\<close>) leaves
  progress = min ((t - te) / crossfadeMs) 1, which never decreases when the frames come
  in order; at the first frame \<open>tc\<close> at or past te + crossfadeMs the computed
  progress is 1, progress is written back to 0, the index advances once, and the
  scheduler is idle again with \<^verbatim>\<open>step\<close> requested and start = tc: the state the
  cycle began in, so the cycle repeats.  The index changes at no other frame, and after
  every frame a callback is requested for the next one.  A frame with timestamp 0,
  which \<^verbatim>\<open>if (!start)\<close> cannot tell from an unset start, leaves a state whose start is
  unset as it is when crossfadeMs < autoPlayMs.  All of this holds in particular
  whenever crossfadeMs \<le> autoPlayMs.
\<close>

theorem C1_scheduler_cycle:
  assumes f: "f = frame cfg \<or> f = frame_noise cfg"
    and T: "0 < crossfadeMs cfg"
    and s: "\<not> isTransitioning s" "raf s = Some Step" "uProgress s = 0"
    and pos: "\<forall>t\<in>set (idle @ te # fade @ [tc]). 0 < t"
    and s0: "s0 = (if start s = 0 then hd (idle @ [te]) else start s)"
    and idle: "\<forall>t\<in>set idle. t - s0 < autoPlayMs cfg - crossfadeMs cfg"
    and te: "te - s0 \<ge> autoPlayMs cfg - crossfadeMs cfg"
    and fade: "\<forall>t\<in>set fade. t - te < crossfadeMs cfg"
    and tc: "tc - te \<ge> crossfadeMs cfg"
  shows "map uProgress (states f s (idle @ te # fade @ [tc]))
           = replicate (length idle) 0 @ 0
             # map (\<lambda>t. min ((t - te) / crossfadeMs cfg) 1) fade @ [0]
       \<and> map isTransitioning (states f s (idle @ te # fade @ [tc]))
           = replicate (length idle) False @ replicate (Suc (length fade)) True @ [False]
       \<and> map index (states f s (idle @ te # fade @ [tc]))
           = replicate (length idle + Suc (length fade)) (index s)
             @ [advanceIndex (length (images cfg)) (index s)]
       \<and> foldl f s (idle @ te # fade @ [tc])
           = s\<lparr>start := tc, isTransitioning := False, uProgress := 0,
               index := advanceIndex (length (images cfg)) (index s), raf := Some Step\<rparr>
       \<and> (\<forall>s'\<in>set (states f s (idle @ te # fade @ [tc])). raf s' \<noteq> None)
       \<and> min ((tc - te) / crossfadeMs cfg) 1 = 1
       \<and> (crossfadeMs cfg < autoPlayMs cfg \<and> start s = 0 \<longrightarrow> f s 0 = s)
       \<and> (sorted (te # fade) \<longrightarrow>
            sorted (map uProgress
              (take (Suc (length fade)) (drop (length idle) (states f s (idle @ te # fade @ [tc]))))))"
proof -
  let ?ts = "idle @ te # fade @ [tc]"
  let ?g = "\<lambda>t. min ((t - te) / crossfadeMs cfg) 1"
  let ?fin = "s\<lparr>start := tc, isTransitioning := False, uProgress := 0,
               index := advanceIndex (length (images cfg)) (index s), raf := Some Step\<rparr>"
  have te0: "te \<noteq> 0" using pos by auto
  have "hd (idle @ [te]) \<in> set (idle @ [te])" by (rule hd_in_set) simp
  with pos have "0 < hd (idle @ [te])" by auto
  with s0 have s00: "s0 \<noteq> 0" by (simp split: if_splits)
  have "\<exists>e. isTransitioning e \<and> uProgress e = 0 \<and> index e = index s \<and> raf e \<noteq> None
          \<and> states f s ?ts = replicate (length idle) (s\<lparr>start := s0\<rparr>)
               @ e # map (\<lambda>t. e\<lparr>uProgress := ?g t\<rparr>) fade @ [?fin]"
  proof (cases "f = frame cfg")
    case True
    from cycle_states [OF s(1,2) s0 s00 te0 idle te fade tc] True s(2,3)
    show ?thesis
      by (intro exI [of _ "s\<lparr>isTransitioning := True, start := te\<rparr>"]) simp
  next
    case False
    with f have "f = frame_noise cfg" by simp
    with cycle_states_noise [OF s s0 s00 T idle te fade tc] s(3)
    show ?thesis
      by (intro exI [of _ "s\<lparr>start := s0, isTransitioning := True,
                             raf := Some (TransitionStep te)\<rparr>"]) simp
  qed
  then obtain e where e: "isTransitioning e" "uProgress e = 0" "index e = index s"
    and re: "raf e \<noteq> None"
    and ss: "states f s ?ts = replicate (length idle) (s\<lparr>start := s0\<rparr>)
               @ e # map (\<lambda>t. e\<lparr>uProgress := ?g t\<rparr>) fade @ [?fin]"
    by blast
  have p: "map uProgress (states f s ?ts) = replicate (length idle) 0 @ 0 # map ?g fade @ [0]"
    using e s(3) by (simp add: ss comp_def)
  have q: "map isTransitioning (states f s ?ts)
           = replicate (length idle) False @ replicate (Suc (length fade)) True @ [False]"
    using e s(1) by (simp add: ss comp_def map_replicate_const)
  have r: "map index (states f s ?ts)
           = replicate (length idle + Suc (length fade)) (index s)
             @ [advanceIndex (length (images cfg)) (index s)]"
    using e by (simp add: ss comp_def map_replicate_const replicate_add replicate_append_same)
  have "states f s ?ts \<noteq> []" by (simp add: ss)
  have l: "foldl f s ?ts = ?fin"
  proof -
    have "foldl f s ?ts = last (states f s ?ts)"
      by (rule foldl_last_states) simp
    then show ?thesis by (simp add: ss)
  qed
  have live: "\<forall>s'\<in>set (states f s ?ts). raf s' \<noteq> None"
    using re s(2) unfolding ss by (simp add: ball_Un)
  have one: "min ((tc - te) / crossfadeMs cfg) 1 = 1"
    using T tc by (simp add: min_def)
  have zero: "f s 0 = s" if "crossfadeMs cfg < autoPlayMs cfg \<and> start s = 0"
  proof -
    from that have d: "0 < autoPlayMs cfg - crossfadeMs cfg" and z: "start s = 0" by simp_all
    have "s\<lparr>start := 0\<rparr> = s" using z by simp
    with f frame_first [OF s(1,2) z d, of 0] frame_noise_first [OF s(1,2) z s(3) d, of 0]
    show ?thesis by auto
  qed
  have m: "sorted (map uProgress (take (Suc (length fade)) (drop (length idle) (states f s ?ts))))"
    if "sorted (te # fade)"
  proof -
    have "map uProgress (take (Suc (length fade)) (drop (length idle) (states f s ?ts)))
          = 0 # map ?g fade"
      using e by (simp add: ss comp_def)
    with progress_sorted [OF T that] show ?thesis by simp
  qed
  from p q r l live one zero m show ?thesis by blast
qed


theorem C1_scheduler_cycle_witness:
  "map uProgress (states (frame \<lparr>images = [''a.jpg'', ''b.jpg'', ''c.jpg''], width = 960, height = 540,
      autoPlayMs = 4000, crossfadeMs = 1000\<rparr>)
       initial [16, 1016, 3000, 3016, 3516, 4016]) = [0, 0, 0, 0, 1 / 2, 0]
   \<and> map index (states (frame \<lparr>images = [''a.jpg'', ''b.jpg'', ''c.jpg''], width = 960, height = 540,
      autoPlayMs = 4000, crossfadeMs = 1000\<rparr>)
       initial [16, 1016, 3000, 3016, 3516, 4016])
       = [Some 0, Some 0, Some 0, Some 0, Some 0, Some 1]
   \<and> map uProgress (states (frame_noise \<lparr>images = [''a.jpg'', ''b.jpg'', ''c.jpg''], width = 960, height = 540,
      autoPlayMs = 4000, crossfadeMs = 1000\<rparr>)
       initial [16, 1016, 3000, 3016, 3516, 4016]) = [0, 0, 0, 0, 1 / 2, 0]
   \<and> map isTransitioning (states (frame_noise \<lparr>images = [''a.jpg'', ''b.jpg'', ''c.jpg''], width = 960, height = 540,
      autoPlayMs = 4000, crossfadeMs = 1000\<rparr>)
       initial [16, 1016, 3000, 3016, 3516, 4016]) = [False, False, False, True, True, False]"
proof -
  let ?cfg = "\<lparr>images = [''a.jpg'', ''b.jpg'', ''c.jpg''], width = 960, height = 540,
               autoPlayMs = 4000, crossfadeMs = 1000\<rparr>"
  let ?idle = "[16, 1016, 3000] :: real list"
  let ?fade = "[3516] :: real list"
  have ts: "?idle @ 3016 # ?fade @ [4016] = [16, 1016, 3000, 3016, 3516, 4016]" by simp
  have T: "0 < crossfadeMs ?cfg" by simp
  have s: "\<not> isTransitioning initial" "raf initial = Some Step" "uProgress initial = 0"
    by (simp_all add: initial_def)
  have pos: "\<forall>t\<in>set (?idle @ 3016 # ?fade @ [4016]). 0 < t" by simp
  have s0: "16 = (if start initial = 0 then hd (?idle @ [3016]) else start initial)"
    by (simp add: initial_def)
  have idle: "\<forall>t\<in>set ?idle. t - 16 < autoPlayMs ?cfg - crossfadeMs ?cfg" by simp
  have te: "3016 - 16 \<ge> autoPlayMs ?cfg - crossfadeMs ?cfg" by simp
  have fade: "\<forall>t\<in>set ?fade. t - 3016 < crossfadeMs ?cfg" by simp
  have tc: "4016 - 3016 \<ge> crossfadeMs ?cfg" by simp
  have f1: "frame ?cfg = frame ?cfg \<or> frame ?cfg = frame_noise ?cfg" by simp
  have f2: "frame_noise ?cfg = frame ?cfg \<or> frame_noise ?cfg = frame_noise ?cfg" by simp
  note A = C1_scheduler_cycle [OF f1 T s pos s0 idle te fade tc, unfolded ts]
  note B = C1_scheduler_cycle [OF f2 T s pos s0 idle te fade tc, unfolded ts]
  from A have a1: "map uProgress (states (frame ?cfg) initial [16, 1016, 3000, 3016, 3516, 4016])
      = replicate (length ?idle) 0 @ 0 # map (\<lambda>t. min ((t - 3016) / crossfadeMs ?cfg) 1) ?fade @ [0]"
    by blast
  from A have a2: "map index (states (frame ?cfg) initial [16, 1016, 3000, 3016, 3516, 4016])
      = replicate (length ?idle + Suc (length ?fade)) (index initial)
        @ [advanceIndex (length (images ?cfg)) (index initial)]"
    by blast
  from B have b1: "map uProgress (states (frame_noise ?cfg) initial [16, 1016, 3000, 3016, 3516, 4016])
      = replicate (length ?idle) 0 @ 0 # map (\<lambda>t. min ((t - 3016) / crossfadeMs ?cfg) 1) ?fade @ [0]"
    by blast
  from B have b2: "map isTransitioning (states (frame_noise ?cfg) initial [16, 1016, 3000, 3016, 3516, 4016])
      = replicate (length ?idle) False @ replicate (Suc (length ?fade)) True @ [False]"
    by blast
  have r1: "replicate (length ?idle) 0 @ 0 # map (\<lambda>t. min ((t - 3016) / crossfadeMs ?cfg) 1) ?fade @ [0]
      = [0, 0, 0, 0, 1 / 2, 0 :: real]"
    by simp
  have r2: "replicate (length ?idle + Suc (length ?fade)) (index initial)
        @ [advanceIndex (length (images ?cfg)) (index initial)]
      = [Some 0, Some 0, Some 0, Some 0, Some 0, Some 1]"
    by (simp add: initial_def advanceIndex_def)
  have r3: "replicate (length ?idle) False @ replicate (Suc (length ?fade)) True @ [False]
      = [False, False, False, True, True, False]"
    by simp
  from a1 a2 b1 b2 show ?thesis unfolding r1 r2 r3 by blast
qed

text \<open>
  Claim C2: for a list of N \<ge> 1 images, after any run of frames from the initial state of
  either scheduler the index is k mod N, where k is the number of transitions completed
  in the run; it is never NaN.  With one image it stays 0, and the number of transitions
  a run completes does not depend on the image list, so a single image stalls nothing.
\<close>

theorem C2_index_after_completions:
  assumes sch: "sch = frame \<or> sch = frame_noise"
    and n: "1 \<le> length (images cfg)"
  shows "index (foldl (sch cfg) initial ts)
           = Some (completions (sch cfg) initial ts mod length (images cfg))
       \<and> (length (images cfg) = 1 \<longrightarrow> index (foldl (sch cfg) initial ts) = Some 0)
       \<and> completions (sch (cfg\<lparr>images := [u]\<rparr>)) initial ts
           = completions (sch cfg) initial ts"
proof -
  from n have pos: "0 < length (images cfg)" by linarith
  have i0: "index initial = Some (0 mod length (images cfg))"
    by (simp add: initial_def)
  have fp: "fadePending initial"
    by (simp add: fadePending_def initial_def)
  have a: "index (foldl (sch cfg) initial ts)
           = Some (completions (sch cfg) initial ts mod length (images cfg))"
    using sch index_completions [OF pos i0, of ts] index_completions_noise [OF pos i0 fp, of ts]
    by auto
  have init: "initial\<lparr>index := index initial\<rparr> = initial" by simp
  have "completions (sch (cfg\<lparr>images := [u]\<rparr>)) (initial\<lparr>index := index initial\<rparr>) ts
           = completions (sch cfg) initial ts"
    using sch
    by (intro completions_images_irrelevant)
       (auto intro: frame_images_irrelevant frame_noise_images_irrelevant)
  with init have c: "completions (sch (cfg\<lparr>images := [u]\<rparr>)) initial ts
           = completions (sch cfg) initial ts" by simp
  from a c show ?thesis by simp
qed

theorem C2_index_after_completions_witness:
  "index (foldl (frame \<lparr>images = [''a.jpg''], width = 960, height = 540,
      autoPlayMs = 4000, crossfadeMs = 1000\<rparr>) initial
       [16, 3016, 4016, 7016, 8016]) = Some 0
   \<and> completions (frame \<lparr>images = [''a.jpg''], width = 960, height = 540,
      autoPlayMs = 4000, crossfadeMs = 1000\<rparr>) initial
       [16, 3016, 4016, 7016, 8016] = 2
   \<and> index (foldl (frame_noise \<lparr>images = [''a.jpg'', ''b.jpg'', ''c.jpg''], width = 960, height = 540,
      autoPlayMs = 4000, crossfadeMs = 1000\<rparr>) initial
       [16, 3016, 4016, 7016, 8016]) = Some 2"
  using C2_index_after_completions [of frame
      "\<lparr>images = [''a.jpg''], width = 960, height = 540,
      autoPlayMs = 4000, crossfadeMs = 1000\<rparr>" "[16, 3016, 4016, 7016, 8016]"]
    C2_index_after_completions [of frame_noise
      "\<lparr>images = [''a.jpg'', ''b.jpg'', ''c.jpg''], width = 960, height = 540,
      autoPlayMs = 4000, crossfadeMs = 1000\<rparr>" "[16, 3016, 4016, 7016, 8016]"]
  by (simp add: initial_def advanceIndex_def frame_def step_def frame_noise_def step_noise_def
      transitionStep_def)

section \<open>Properties of the crossfade shader\<close>

lemma smoothstep_unit:
  "0 \<le> p \<Longrightarrow> p \<le> 1 \<Longrightarrow> smoothstep 0 1 p = p * p * (3 - 2 * p)"
  by (simp add: smoothstep_def clamp_def)

lemma smoothstep_range:
  assumes "0 \<le> p" "p \<le> 1"
  shows "0 \<le> smoothstep 0 1 p" and "smoothstep 0 1 p \<le> 1"
proof -
  have "0 \<le> p * p * (3 - 2 * p)"
    using assms by (intro mult_nonneg_nonneg) simp_all
  then show "0 \<le> smoothstep 0 1 p"
    using assms by (simp add: smoothstep_unit)
  have "1 - p * p * (3 - 2 * p) = (1 - p) * (1 - p) * (1 + 2 * p)"
    by (simp add: algebra_simps)
  moreover have "0 \<le> (1 - p) * (1 - p) * (1 + 2 * p)"
    using assms by (intro mult_nonneg_nonneg) simp_all
  ultimately have "p * p * (3 - 2 * p) \<le> 1" by linarith
  then show "smoothstep 0 1 p \<le> 1"
    using assms by (simp add: smoothstep_unit)
qed

lemma mix_between:
  assumes "0 \<le> a" "a \<le> 1"
  shows "min x y \<le> mix x y a" and "mix x y a \<le> max x y"
proof -
  have lo: "min x y * (1 - a) \<le> x * (1 - a)" "min x y * a \<le> y * a"
    using assms by (simp_all add: mult_right_mono)
  have "min x y = min x y * (1 - a) + min x y * a" by (simp add: algebra_simps)
  with lo show "min x y \<le> mix x y a" unfolding mix_def by linarith
  have hi: "x * (1 - a) \<le> max x y * (1 - a)" "y * a \<le> max x y * a"
    using assms by (simp_all add: mult_right_mono)
  have "max x y = max x y * (1 - a) + max x y * a" by (simp add: algebra_simps)
  with hi show "mix x y a \<le> max x y" unfolding mix_def by linarith
qed

lemma mix4_channels:
  "i < 4 \<Longrightarrow> channels (mix4 c1 c2 a) ! i = mix (channels c1 ! i) (channels c2 ! i) a"
proof -
  obtain xr xg xb xa where c1: "c1 = (xr, xg, xb, xa)" by (cases c1)
  obtain yr yg yb ya where c2: "c2 = (yr, yg, yb, ya)" by (cases c2)
  assume "i < 4"
  then have "i = 0 \<or> i = 1 \<or> i = 2 \<or> i = 3" by arith
  then show ?thesis unfolding c1 c2 by auto
qed

lemma mix4_zero: "mix4 c1 c2 0 = c1"
  by (cases c1; cases c2) (simp add: mix_def)

lemma mix4_one: "mix4 c1 c2 1 = c2"
  by (cases c1; cases c2) (simp add: mix_def)

lemma fitUV_components:
  "fitUV (x, y) (sx, sy) (ox, oy) = ((x - 0.5) * sx + 0.5 + ox, (y - 0.5) * sy + 0.5 + oy)"
  by (simp add: fitUV_def)

text \<open>
  Claim C5: for every pixel and every progress in [0, 1] the crossfade shader returns
  the mix of the two samples, taken at the fit-adjusted coordinates
  (UV - 0.5) * scale + 0.5 + offset of each image, weighted by smoothstep(0, 1, progress);
  at progress 0 this is the current image's sample, at progress 1 the next image's, and
  every channel of the output lies between the two samples' values of that channel.
\<close>

theorem C5_crossfade_output:
  assumes "0 \<le> uProgress u" and "uProgress u \<le> 1"
    and "c1 = texture2D (uTex1 u) (fitUV vUv (uImageScale1 u) (uImageOffset1 u))"
    and "c2 = texture2D (uTex2 u) (fitUV vUv (uImageScale2 u) (uImageOffset2 u))"
  shows "fragmentShader texture2D u vUv = mix4 c1 c2 (smoothstep 0 1 (uProgress u))
       \<and> fitUV vUv (uImageScale1 u) (uImageOffset1 u)
           = ((fst vUv - 0.5) * fst (uImageScale1 u) + 0.5 + fst (uImageOffset1 u),
              (snd vUv - 0.5) * snd (uImageScale1 u) + 0.5 + snd (uImageOffset1 u))
       \<and> fitUV vUv (uImageScale2 u) (uImageOffset2 u)
           = ((fst vUv - 0.5) * fst (uImageScale2 u) + 0.5 + fst (uImageOffset2 u),
              (snd vUv - 0.5) * snd (uImageScale2 u) + 0.5 + snd (uImageOffset2 u))
       \<and> (uProgress u = 0 \<longrightarrow> fragmentShader texture2D u vUv = c1)
       \<and> (uProgress u = 1 \<longrightarrow> fragmentShader texture2D u vUv = c2)
       \<and> (\<forall>i<4. min (channels c1 ! i) (channels c2 ! i)
                    \<le> channels (fragmentShader texture2D u vUv) ! i
                \<and> channels (fragmentShader texture2D u vUv) ! i
                    \<le> max (channels c1 ! i) (channels c2 ! i))"
proof -
  have out: "fragmentShader texture2D u vUv = mix4 c1 c2 (smoothstep 0 1 (uProgress u))"
    using assms(3,4) by (simp add: fragmentShader_def)
  have uv: "fitUV vUv sc off
           = ((fst vUv - 0.5) * fst sc + 0.5 + fst off, (snd vUv - 0.5) * snd sc + 0.5 + snd off)"
    for sc off
    using fitUV_components [of "fst vUv" "snd vUv" "fst sc" "snd sc" "fst off" "snd off"]
    by simp
  have zero: "fragmentShader texture2D u vUv = c1" if "uProgress u = 0"
    using that by (simp add: out smoothstep_unit mix4_zero)
  have one: "fragmentShader texture2D u vUv = c2" if "uProgress u = 1"
    using that by (simp add: out smoothstep_unit mix4_one)
  note sr = smoothstep_range [OF assms(1,2)]
  have between: "min (channels c1 ! i) (channels c2 ! i)
                    \<le> channels (fragmentShader texture2D u vUv) ! i
                \<and> channels (fragmentShader texture2D u vUv) ! i
                    \<le> max (channels c1 ! i) (channels c2 ! i)" if "i < 4" for i
    using mix_between [OF sr] that by (simp add: out mix4_channels)
  from out uv zero one between show ?thesis by blast
qed

theorem C5_crossfade_output_witness:
  "fragmentShader (\<lambda>tx uv. if tx = None then (0, 0, 0, 1) else (1, fst uv, snd uv, 1))
     (mount \<lparr>images = [''a.jpg'', ''b.jpg''], width = 960, height = 540,
             autoPlayMs = 4000, crossfadeMs = 1000\<rparr> 0
       \<lparr>uProgress := 1 / 4, uTex2 := Some (loadedTexture (Some ''b.jpg''))\<rparr>)
     (1 / 4, 3 / 4)
   = (5 / 32, 5 / 128, 15 / 128, 1)"
  using C5_crossfade_output [of
     "mount \<lparr>images = [''a.jpg'', ''b.jpg''], width = 960, height = 540,
             autoPlayMs = 4000, crossfadeMs = 1000\<rparr> 0
       \<lparr>uProgress := 1 / 4, uTex2 := Some (loadedTexture (Some ''b.jpg''))\<rparr>"
     "(0, 0, 0, 1)"
     "\<lambda>tx uv. if tx = None then (0, 0, 0, 1) else (1, fst uv, snd uv, 1)"
     "(1 / 4, 3 / 4)" "(1, 1 / 4, 3 / 4, 1)"]
  by (simp add: mount_def loadCurrentImages_def fitUV_def smoothstep_def clamp_def mix_def)

section \<open>Properties of the directional-displacement shader\<close>

lemma getRotM_apply:
  "mulMV (getRotM a) (x, y) = (cos a * x + sin a * y, - sin a * x + cos a * y)"
  by (simp add: getRotM_def Let_def)

text \<open>
  Claim C7, as stated: angle2 defaults to -3 * angle1 when it is not supplied.  The
  default is computed from the prop \<^verbatim>\<open>angle\<close>, not from angle1: with angle = 2 and
  angle1 = 1 supplied and angle2 left out, the uniform angle2 is -6 while -3 * angle1
  is -3.
\<close>

theorem C7_angle2_default_counterexample:
  "angle1 (created2 \<lparr>imagesProp = Some [''a.jpg'', ''b.jpg''], image1Prop = None,
                      image2Prop = None, displacementImageProp = None,
                      widthProp = None, heightProp = None,
                      intensity1Prop = None, intensity2Prop = None,
                      angleProp = Some 2, angle1Prop = Some 1, angle2Prop = None,
                      speedInProp = None, easingProp = (\<lambda>x. x), autoPlayProp = None\<rparr>) = 1
   \<and> angle2 (created2 \<lparr>imagesProp = Some [''a.jpg'', ''b.jpg''], image1Prop = None,
                      image2Prop = None, displacementImageProp = None,
                      widthProp = None, heightProp = None,
                      intensity1Prop = None, intensity2Prop = None,
                      angleProp = Some 2, angle1Prop = Some 1, angle2Prop = None,
                      speedInProp = None, easingProp = (\<lambda>x. x), autoPlayProp = None\<rparr>) = - 6"
  by (simp add: created2_def orDefault_def Let_def)

text \<open>
  Claim C7, amended: for every pixel the current image is sampled at its fit-adjusted UV
  plus rotate(angle1) * displacementVector * intensity1 * progress and the next image
  at its fit-adjusted UV plus rotate(angle2) * displacementVector * intensity2 *
  (1 - progress), the displacement vector being the red and green channels of the
  displacement map at the pixel and rotate(a) the matrix \<^verbatim>\<open>getRotM(a)\<close>; the final colour
  is the linear mix of the two samples weighted by progress.  angle1 defaults to the
  prop angle, and angle2 to -3 * angle, angle defaulting to pi / 4; so angle2 is
  -3 * angle1 when neither of the two is supplied.
\<close>

theorem C7_directional_displacement:
  assumes "dispVec texture2D u vUv = (dx, dy)"
  shows "distortedPosition1 texture2D u vUv
           = add2 (fitUV vUv (imageScale1 u) (imageOffset1 u))
               ((cos (angle1 u) * dx + sin (angle1 u) * dy) * intensity1 u * dispFactor u,
                (- sin (angle1 u) * dx + cos (angle1 u) * dy) * intensity1 u * dispFactor u)
       \<and> distortedPosition2 texture2D u vUv
           = add2 (fitUV vUv (imageScale2 u) (imageOffset2 u))
               ((cos (angle2 u) * dx + sin (angle2 u) * dy) * intensity2 u * (1 - dispFactor u),
                (- sin (angle2 u) * dx + cos (angle2 u) * dy) * intensity2 u * (1 - dispFactor u))
       \<and> fragmentShader2 texture2D u vUv
           = mix4 (texture2D (texture1 u) (distortedPosition1 texture2D u vUv))
                  (texture2D (texture2 u) (distortedPosition2 texture2D u vUv))
                  (dispFactor u)
       \<and> (\<forall>i<4. channels (fragmentShader2 texture2D u vUv) ! i
              = channels (texture2D (texture1 u) (distortedPosition1 texture2D u vUv)) ! i
                  * (1 - dispFactor u)
                + channels (texture2D (texture2 u) (distortedPosition2 texture2D u vUv)) ! i
                  * dispFactor u)
       \<and> (fst (texture2D (disp u) vUv), fst (snd (texture2D (disp u) vUv))) = (dx, dy)
       \<and> angle1 (created2 p) = orDefault (angle1Prop p) (orDefault (angleProp p) (pi / 4))
       \<and> angle2 (created2 p) = orDefault (angle2Prop p) (- 3 * orDefault (angleProp p) (pi / 4))
       \<and> (angle1Prop p = None \<and> angle2Prop p = None
            \<longrightarrow> angle2 (created2 p) = - 3 * angle1 (created2 p))"
proof -
  have a: "distortedPosition1 texture2D u vUv
           = add2 (fitUV vUv (imageScale1 u) (imageOffset1 u))
               ((cos (angle1 u) * dx + sin (angle1 u) * dy) * intensity1 u * dispFactor u,
                (- sin (angle1 u) * dx + cos (angle1 u) * dy) * intensity1 u * dispFactor u)"
    using assms by (simp add: distortedPosition1_def getRotM_apply)
  have b: "distortedPosition2 texture2D u vUv
           = add2 (fitUV vUv (imageScale2 u) (imageOffset2 u))
               ((cos (angle2 u) * dx + sin (angle2 u) * dy) * intensity2 u * (1 - dispFactor u),
                (- sin (angle2 u) * dx + cos (angle2 u) * dy) * intensity2 u * (1 - dispFactor u))"
    using assms by (simp add: distortedPosition2_def getRotM_apply)
  have c: "fragmentShader2 texture2D u vUv
           = mix4 (texture2D (texture1 u) (distortedPosition1 texture2D u vUv))
                  (texture2D (texture2 u) (distortedPosition2 texture2D u vUv))
                  (dispFactor u)"
    by (simp add: fragmentShader2_def)
  have d: "channels (fragmentShader2 texture2D u vUv) ! i
              = channels (texture2D (texture1 u) (distortedPosition1 texture2D u vUv)) ! i
                  * (1 - dispFactor u)
                + channels (texture2D (texture2 u) (distortedPosition2 texture2D u vUv)) ! i
                  * dispFactor u" if "i < 4" for i
    using that by (simp add: c mix4_channels mix_def)
  have e: "(fst (texture2D (disp u) vUv), fst (snd (texture2D (disp u) vUv))) = (dx, dy)"
    using assms by (simp add: dispVec_def split: prod.splits)
  have f: "angle1 (created2 p) = orDefault (angle1Prop p) (orDefault (angleProp p) (pi / 4))"
    by (simp add: created2_def Let_def)
  have g: "angle2 (created2 p) = orDefault (angle2Prop p) (- 3 * orDefault (angleProp p) (pi / 4))"
    by (simp add: created2_def Let_def mult.commute)
  have h: "angle2 (created2 p) = - 3 * angle1 (created2 p)"
    if "angle1Prop p = None \<and> angle2Prop p = None"
    using that by (simp add: f g orDefault_def)
  from a b c d e f g h show ?thesis by blast
qed

theorem C7_directional_displacement_witness:
  "distortedPosition1 (\<lambda>tx uv. (1, 0, 0, 1))
     (created2 \<lparr>imagesProp = Some [''a.jpg'', ''b.jpg''], image1Prop = None,
                 image2Prop = None, displacementImageProp = None,
                 widthProp = None, heightProp = None,
                 intensity1Prop = Some 2, intensity2Prop = None,
                 angleProp = Some 0, angle1Prop = None, angle2Prop = None,
                 speedInProp = None, easingProp = (\<lambda>x. x), autoPlayProp = None\<rparr>
        \<lparr>dispFactor := 1 / 4\<rparr>)
     (1 / 2, 1 / 2) = (1, 1 / 2)"
  using C7_directional_displacement [of "\<lambda>tx uv. (1, 0, 0, 1)"
     "created2 \<lparr>imagesProp = Some [''a.jpg'', ''b.jpg''], image1Prop = None,
                 image2Prop = None, displacementImageProp = None,
                 widthProp = None, heightProp = None,
                 intensity1Prop = Some 2, intensity2Prop = None,
                 angleProp = Some 0, angle1Prop = None, angle2Prop = None,
                 speedInProp = None, easingProp = (\<lambda>x. x), autoPlayProp = None\<rparr>
        \<lparr>dispFactor := 1 / 4\<rparr>"
     "(1 / 2, 1 / 2)" 1 0]
  by (simp add: dispVec_def created2_def orDefault_def fitUV_def Let_def)

section \<open>Properties of image loading and teardown\<close>




lemma scheduler_cancelled:
  assumes "sch = frame \<or> sch = frame_noise" "raf s = None"
  shows "sch cfg s t = s"
  using assms by (auto simp add: frame_def frame_noise_def)

lemma handle_frame_unmounted:
  assumes "sch = frame \<or> sch = frame_noise" "raf s = None" "\<not> renderRaf s"
  shows "handle sch cfg s (Frame t now) = s"
  using assms scheduler_cancelled [OF assms(1,2)] by simp

lemma frames_unmounted:
  assumes "sch = frame \<or> sch = frame_noise" "raf s = None" "\<not> renderRaf s"
    and "\<forall>e\<in>set es. isTimerOrFrame e"
  shows "foldl (handle sch cfg) s es = s"
  using assms(4)
proof (induction es)
  case Nil
  then show ?case by simp
next
  case (Cons e es)
  then have "isTimerOrFrame e" by simp
  then have "handle sch cfg s e = s"
    using handle_frame_unmounted [OF assms(1,2,3)] by (cases e) simp_all
  with Cons show ?case by simp
qed

lemma tweenRender_unmounted:
  assumes "\<not> mounted2 s"
  shows "\<exists>d l. tweenRender p now tw s
                  = s\<lparr>dispFactor := d, tweensRunning := tweensRunning s @ l\<rparr>
               \<and> length l \<le> 1"
proof -
  let ?elapsed = "(now - tweenStart tw) / 1000"
  let ?from = "orDefault (tweenFrom tw) (dispFactor s)"
  consider (early) "?elapsed < 0"
    | (finished) "\<not> ?elapsed < 0" "?elapsed \<ge> orDefault (speedInProp p) 1.6"
    | (running) "\<not> ?elapsed < 0" "\<not> ?elapsed \<ge> orDefault (speedInProp p) 1.6"
    by blast
  then show ?thesis
  proof cases
    case early
    then have "tweenRender p now tw s
             = s\<lparr>dispFactor := dispFactor s, tweensRunning := tweensRunning s @ [tw]\<rparr>"
      by (simp add: tweenRender_def Let_def)
    then show ?thesis by (intro exI [of _ "dispFactor s"] exI [of _ "[tw]"]) simp
  next
    case finished
    with assms have "tweenRender p now tw s
             = s\<lparr>dispFactor := 1, tweensRunning := tweensRunning s @ []\<rparr>"
      by (simp add: tweenRender_def onComplete_def Let_def)
    then show ?thesis by (intro exI [of _ 1] exI [of _ "[]"]) simp
  next
    case running
    then have "tweenRender p now tw s
             = s\<lparr>dispFactor := ?from + (1 - ?from)
                                  * easingProp p (?elapsed / orDefault (speedInProp p) 1.6),
                  tweensRunning := tweensRunning s @ [tw\<lparr>tweenFrom := Some ?from\<rparr>]\<rparr>"
      by (simp add: tweenRender_def Let_def)
    then show ?thesis
      by (intro exI [of _ "?from + (1 - ?from)
                                  * easingProp p (?elapsed / orDefault (speedInProp p) 1.6)"]
          exI [of _ "[tw\<lparr>tweenFrom := Some ?from\<rparr>]"]) simp
  qed
qed

lemma runTweens_unmounted:
  assumes "\<not> mounted2 s"
  shows "\<exists>d l. runTweens p now tws s
                  = s\<lparr>dispFactor := d, tweensRunning := tweensRunning s @ l\<rparr>
               \<and> length l \<le> length tws"
  using assms
proof (induction tws arbitrary: s)
  case Nil
  have "runTweens p now [] s = s\<lparr>dispFactor := dispFactor s,
                                   tweensRunning := tweensRunning s @ []\<rparr>"
    by simp
  then show ?case by (intro exI [of _ "dispFactor s"] exI [of _ "[]"]) simp
next
  case (Cons tw tws)
  from tweenRender_unmounted [OF Cons.prems, of p now tw]
  obtain d1 l1 where one: "tweenRender p now tw s
                  = s\<lparr>dispFactor := d1, tweensRunning := tweensRunning s @ l1\<rparr>"
    and l1: "length l1 \<le> 1"
    by blast
  let ?s1 = "s\<lparr>dispFactor := d1, tweensRunning := tweensRunning s @ l1\<rparr>"
  from Cons.prems have "\<not> mounted2 ?s1" by simp
  from Cons.IH [OF this]
  obtain d l where rest: "runTweens p now tws ?s1
                  = ?s1\<lparr>dispFactor := d, tweensRunning := tweensRunning ?s1 @ l\<rparr>"
    and l: "length l \<le> length tws"
    by blast
  have "runTweens p now (tw # tws) s
        = s\<lparr>dispFactor := d, tweensRunning := tweensRunning s @ (l1 @ l)\<rparr>"
    using one rest by simp
  moreover have "length (l1 @ l) \<le> length (tw # tws)"
    using l1 l by simp
  ultimately show ?case by blast
qed

lemma handle2_unmounted:
  assumes "\<not> mounted2 s" "\<not> autoPlayTimer s" "isTimerOrFrame e"
  shows "\<exists>d tws. handle2 p s e = s\<lparr>dispFactor := d, tweensRunning := tws\<rparr>
                 \<and> length tws \<le> length (tweensRunning s)"
proof (cases e)
  case (Frame t now)
  from assms(1) have "\<not> mounted2 (s\<lparr>tweensRunning := []\<rparr>)" by simp
  from runTweens_unmounted [OF this, of p now "tweensRunning s"]
  obtain d l where "runTweens p now (tweensRunning s) (s\<lparr>tweensRunning := []\<rparr>)
                  = s\<lparr>dispFactor := d, tweensRunning := l\<rparr>"
    and "length l \<le> length (tweensRunning s)"
    by auto
  with Frame have "handle2 p s e = s\<lparr>dispFactor := d, tweensRunning := l\<rparr>
                 \<and> length l \<le> length (tweensRunning s)"
    by (simp add: gsapTick_def)
  then show ?thesis by blast
next
  case (IntervalFired now)
  have "s = s\<lparr>dispFactor := dispFactor s, tweensRunning := tweensRunning s\<rparr>" by simp
  with IntervalFired assms(2) show ?thesis
    by (intro exI [of _ "dispFactor s"] exI [of _ "tweensRunning s"]) simp
qed (use assms(3) in simp_all)

lemma frames_unmounted2:
  assumes "\<not> mounted2 s" "\<not> autoPlayTimer s" "\<forall>e\<in>set es. isTimerOrFrame e"
  shows "\<exists>d tws. foldl (handle2 p) s es = s\<lparr>dispFactor := d, tweensRunning := tws\<rparr>
                 \<and> length tws \<le> length (tweensRunning s)"
  using assms
proof (induction es arbitrary: s)
  case Nil
  have "s = s\<lparr>dispFactor := dispFactor s, tweensRunning := tweensRunning s\<rparr>" by simp
  then show ?case
    by (intro exI [of _ "dispFactor s"] exI [of _ "tweensRunning s"]) simp
next
  case (Cons e es)
  then have e: "isTimerOrFrame e" and es: "\<forall>e\<in>set es. isTimerOrFrame e" by simp_all
  from handle2_unmounted [OF Cons.prems(1,2) e, of p]
  obtain d1 tws1 where one: "handle2 p s e = s\<lparr>dispFactor := d1, tweensRunning := tws1\<rparr>"
    and l1: "length tws1 \<le> length (tweensRunning s)"
    by blast
  let ?s1 = "s\<lparr>dispFactor := d1, tweensRunning := tws1\<rparr>"
  from Cons.prems(1,2) have "\<not> mounted2 ?s1" "\<not> autoPlayTimer ?s1" by simp_all
  from Cons.IH [OF this es]
  obtain d tws where rest: "foldl (handle2 p) ?s1 es
                             = ?s1\<lparr>dispFactor := d, tweensRunning := tws\<rparr>"
    and l: "length tws \<le> length (tweensRunning ?s1)"
    by blast
  have "foldl (handle2 p) s (e # es) = s\<lparr>dispFactor := d, tweensRunning := tws\<rparr>"
    using one rest by simp
  moreover have "length tws \<le> length (tweensRunning s)"
    using l l1 by simp
  ultimately show ?case by blast
qed

lemma frames_no_tween:
  assumes "tweensRunning s = []" "\<not> autoPlayTimer s" "\<forall>e\<in>set es. isTimerOrFrame e"
  shows "foldl (handle2 p) s es = s"
  using assms(3)
proof (induction es)
  case Nil
  then show ?case by simp
next
  case (Cons e es)
  then have e: "isTimerOrFrame e" by simp
  have "s\<lparr>tweensRunning := tweensRunning s\<rparr> = s" by simp
  then have "s\<lparr>tweensRunning := []\<rparr> = s" using assms(1) by simp
  then have "handle2 p s e = s"
    using e assms(1,2) by (cases e) (simp_all add: gsapTick_def)
  with Cons show ?case by simp
qed

text \<open>
  Claim C8: an image whose load fails resolves its aspect-ratio promise with 1.0, so when
  the two promises of a load cycle have settled the continuation runs as for any other
  outcome: the slot of the failed image gets aspect ratio 1.0 and the fit parameters of
  a square image, and the texture load of the current image is issued.  A texture load
  that fails runs no callback, so both texture slots stay as they were.
\<close>

theorem C8_failed_image_is_square:
  assumes "AspectRatios url1 url2 \<in> set (inflight s)"
    and "s1 = handle sch cfg s (ImagesSettled (AspectRatios url1 url2) Errored r2)"
    and "s2 = handle sch cfg s (ImagesSettled (AspectRatios url1 url2) r1 Errored)"
    and "s3 = handle sch cfg s (TextureFailed q)"
    and "square = calculateFitParams 1 (width cfg / height cfg)"
  shows "getImageAspectRatio Errored = 1
       \<and> uImageAspectRatio1 s1 = 1
       \<and> uImageScale1 s1 = (scaleX square, scaleY square)
       \<and> uImageOffset1 s1 = (offsetX square, offsetY square)
       \<and> uImageAspectRatio2 s1 = getImageAspectRatio r2
       \<and> uTex1 s1 = uTex1 s \<and> uTex2 s1 = uTex2 s
       \<and> CurrentTexture url1 url2 \<in> set (inflight s1)
       \<and> uImageAspectRatio2 s2 = 1
       \<and> uImageScale2 s2 = (scaleX square, scaleY square)
       \<and> uImageOffset2 s2 = (offsetX square, offsetY square)
       \<and> uImageAspectRatio1 s2 = getImageAspectRatio r1
       \<and> uTex1 s2 = uTex1 s \<and> uTex2 s2 = uTex2 s
       \<and> CurrentTexture url1 url2 \<in> set (inflight s2)
       \<and> uTex1 s3 = uTex1 s \<and> uTex2 s3 = uTex2 s"
proof -
  have a: "uImageAspectRatio1 s1 = 1 \<and> uImageScale1 s1 = (scaleX square, scaleY square)
       \<and> uImageOffset1 s1 = (offsetX square, offsetY square)
       \<and> uImageAspectRatio2 s1 = getImageAspectRatio r2
       \<and> uTex1 s1 = uTex1 s \<and> uTex2 s1 = uTex2 s
       \<and> CurrentTexture url1 url2 \<in> set (inflight s1)"
    using assms(1) unfolding assms(2,5)
    by (simp add: loadCurrentImages_resume_def Let_def)
  have b: "uImageAspectRatio2 s2 = 1 \<and> uImageScale2 s2 = (scaleX square, scaleY square)
       \<and> uImageOffset2 s2 = (offsetX square, offsetY square)
       \<and> uImageAspectRatio1 s2 = getImageAspectRatio r1
       \<and> uTex1 s2 = uTex1 s \<and> uTex2 s2 = uTex2 s
       \<and> CurrentTexture url1 url2 \<in> set (inflight s2)"
    using assms(1) unfolding assms(3,5)
    by (simp add: loadCurrentImages_resume_def Let_def)
  have c: "uTex1 s3 = uTex1 s \<and> uTex2 s3 = uTex2 s"
    unfolding assms(4) by (cases q) simp_all
  from a b c show ?thesis by simp
qed

theorem C8_failed_image_is_square_witness:
  "uImageAspectRatio1
     (handle frame \<lparr>images = [''a.jpg'', ''b.jpg''], width = 960, height = 540,
                     autoPlayMs = 4000, crossfadeMs = 1000\<rparr>
        (mount \<lparr>images = [''a.jpg'', ''b.jpg''], width = 960, height = 540,
                 autoPlayMs = 4000, crossfadeMs = 1000\<rparr> 0)
        (ImagesSettled (AspectRatios (Some ''a.jpg'') (Some ''b.jpg'')) Errored (Loaded 1920 1080)))
     = 1
   \<and> uImageScale1
     (handle frame \<lparr>images = [''a.jpg'', ''b.jpg''], width = 960, height = 540,
                     autoPlayMs = 4000, crossfadeMs = 1000\<rparr>
        (mount \<lparr>images = [''a.jpg'', ''b.jpg''], width = 960, height = 540,
                 autoPlayMs = 4000, crossfadeMs = 1000\<rparr> 0)
        (ImagesSettled (AspectRatios (Some ''a.jpg'') (Some ''b.jpg'')) Errored (Loaded 1920 1080)))
     = (1, 9 / 16)
   \<and> uTex1
     (handle frame \<lparr>images = [''a.jpg'', ''b.jpg''], width = 960, height = 540,
                     autoPlayMs = 4000, crossfadeMs = 1000\<rparr>
        (mount \<lparr>images = [''a.jpg'', ''b.jpg''], width = 960, height = 540,
                 autoPlayMs = 4000, crossfadeMs = 1000\<rparr> 0)
        (ImagesSettled (AspectRatios (Some ''a.jpg'') (Some ''b.jpg'')) Errored (Loaded 1920 1080)))
     = None"
proof -
  let ?cfg = "\<lparr>images = [''a.jpg'', ''b.jpg''], width = 960, height = 540,
               autoPlayMs = 4000, crossfadeMs = 1000\<rparr>"
  let ?r = "AspectRatios (Some ''a.jpg'') (Some ''b.jpg'')"
  have m: "inflight (mount ?cfg 0) = [?r]" "uTex1 (mount ?cfg 0) = None"
    by (simp_all add: mount_def loadCurrentImages_def imageAt_def advanceIndex_def)
  then have "?r \<in> set (inflight (mount ?cfg 0))" by simp
  from C8_failed_image_is_square [OF this refl refl refl refl,
      where sch = frame and cfg = ?cfg and ?r2.0 = "Loaded 1920 1080"] m(2)
  show ?thesis by (simp add: calculateFitParams_def)
qed

text \<open>
  Claim C9, as stated: after unmount a tick or an image-load completion is a no-op, and
  no further uniform writes occur.  No load callback checks whether the component is
  still mounted: when, after the unmount, the aspect ratios settle and then the texture
  of the current image loads, the callback stores the texture in uTex1.  And the
  displacement component does not kill the tween that its interval callback has handed
  to gsap: a tween started at 3000 ms, with the default duration of 1.6 s, still writes
  dispFactor on the frames at 3800 ms and 5000 ms although the component was unmounted
  in between.
\<close>

theorem C9_writes_after_unmount_counterexample:
  "uTex1 (handle frame \<lparr>images = [''a.jpg'', ''b.jpg''], width = 960, height = 540,
                         autoPlayMs = 4000, crossfadeMs = 1000\<rparr>
            (mount \<lparr>images = [''a.jpg'', ''b.jpg''], width = 960, height = 540,
                     autoPlayMs = 4000, crossfadeMs = 1000\<rparr> 0) Unmount) = None
   \<and> uTex1 (foldl (handle frame \<lparr>images = [''a.jpg'', ''b.jpg''], width = 960, height = 540,
                                 autoPlayMs = 4000, crossfadeMs = 1000\<rparr>)
            (mount \<lparr>images = [''a.jpg'', ''b.jpg''], width = 960, height = 540,
                     autoPlayMs = 4000, crossfadeMs = 1000\<rparr> 0)
            [Unmount,
             ImagesSettled (AspectRatios (Some ''a.jpg'') (Some ''b.jpg''))
               (Loaded 1920 1080) (Loaded 800 600),
             TextureLoaded (CurrentTexture (Some ''a.jpg'') (Some ''b.jpg''))])
     = Some (loadedTexture (Some ''a.jpg''))
   \<and> dispFactor (foldl (handle2 \<lparr>imagesProp = Some [''a.jpg'', ''b.jpg''], image1Prop = None,
                               image2Prop = None, displacementImageProp = None,
                               widthProp = None, heightProp = None,
                               intensity1Prop = None, intensity2Prop = None,
                               angleProp = None, angle1Prop = None, angle2Prop = None,
                               speedInProp = None, easingProp = (\<lambda>x. x), autoPlayProp = Some True\<rparr>)
                  (mount2 \<lparr>imagesProp = Some [''a.jpg'', ''b.jpg''], image1Prop = None,
                            image2Prop = None, displacementImageProp = None,
                            widthProp = None, heightProp = None,
                            intensity1Prop = None, intensity2Prop = None,
                            angleProp = None, angle1Prop = None, angle2Prop = None,
                            speedInProp = None, easingProp = (\<lambda>x. x), autoPlayProp = Some True\<rparr>)
                  [IntervalFired 3000, Unmount]) = 0
   \<and> dispFactor (foldl (handle2 \<lparr>imagesProp = Some [''a.jpg'', ''b.jpg''], image1Prop = None,
                               image2Prop = None, displacementImageProp = None,
                               widthProp = None, heightProp = None,
                               intensity1Prop = None, intensity2Prop = None,
                               angleProp = None, angle1Prop = None, angle2Prop = None,
                               speedInProp = None, easingProp = (\<lambda>x. x), autoPlayProp = Some True\<rparr>)
                  (mount2 \<lparr>imagesProp = Some [''a.jpg'', ''b.jpg''], image1Prop = None,
                            image2Prop = None, displacementImageProp = None,
                            widthProp = None, heightProp = None,
                            intensity1Prop = None, intensity2Prop = None,
                            angleProp = None, angle1Prop = None, angle2Prop = None,
                            speedInProp = None, easingProp = (\<lambda>x. x), autoPlayProp = Some True\<rparr>)
                  [IntervalFired 3000, Unmount, Frame 3800 3800]) = 1 / 2
   \<and> dispFactor (foldl (handle2 \<lparr>imagesProp = Some [''a.jpg'', ''b.jpg''], image1Prop = None,
                               image2Prop = None, displacementImageProp = None,
                               widthProp = None, heightProp = None,
                               intensity1Prop = None, intensity2Prop = None,
                               angleProp = None, angle1Prop = None, angle2Prop = None,
                               speedInProp = None, easingProp = (\<lambda>x. x), autoPlayProp = Some True\<rparr>)
                  (mount2 \<lparr>imagesProp = Some [''a.jpg'', ''b.jpg''], image1Prop = None,
                            image2Prop = None, displacementImageProp = None,
                            widthProp = None, heightProp = None,
                            intensity1Prop = None, intensity2Prop = None,
                            angleProp = None, angle1Prop = None, angle2Prop = None,
                            speedInProp = None, easingProp = (\<lambda>x. x), autoPlayProp = Some True\<rparr>)
                  [IntervalFired 3000, Unmount, Frame 3800 3800, Frame 5000 5000]) = 1"
proof -
  let ?cfg = "\<lparr>images = [''a.jpg'', ''b.jpg''], width = 960, height = 540,
               autoPlayMs = 4000, crossfadeMs = 1000\<rparr>"
  let ?p = "\<lparr>imagesProp = Some [''a.jpg'', ''b.jpg''], image1Prop = None,
              image2Prop = None, displacementImageProp = None,
              widthProp = None, heightProp = None,
              intensity1Prop = None, intensity2Prop = None,
              angleProp = None, angle1Prop = None, angle2Prop = None,
              speedInProp = None, easingProp = (\<lambda>x. x), autoPlayProp = Some True\<rparr>"
  have a: "uTex1 (handle frame ?cfg (mount ?cfg 0) Unmount) = None"
    by (simp add: mount_def loadCurrentImages_def imageAt_def advanceIndex_def unmount_def)
  have b: "uTex1 (foldl (handle frame ?cfg) (mount ?cfg 0)
            [Unmount,
             ImagesSettled (AspectRatios (Some ''a.jpg'') (Some ''b.jpg''))
               (Loaded 1920 1080) (Loaded 800 600),
             TextureLoaded (CurrentTexture (Some ''a.jpg'') (Some ''b.jpg''))])
     = Some (loadedTexture (Some ''a.jpg''))"
    by (simp add: mount_def loadCurrentImages_def imageAt_def advanceIndex_def
        unmount_def loadCurrentImages_resume_def Let_def)
  define m where "m = mount2 ?p"
  have m: "dispFactor m = 0" "autoPlayTimer m" "tweensRunning m = []"
    unfolding m_def
    by (simp_all add: mount2_def mountEffect_def startAutoPlay_def loadCurrentImages2_def
        loadImagesForCurrentIndex_def created2_def displacementImg_def imageList_def
        orDefault_def Let_def)
  define u where "u = foldl (handle2 ?p) m [IntervalFired 3000, Unmount]"
  have u: "dispFactor u = 0" "\<not> mounted2 u"
    "tweensRunning u = [\<lparr>tweenStart = 3000, tweenFrom = None\<rparr>]"
    unfolding u_def using m by (simp_all add: mountCleanup_def)
  define v where "v = handle2 ?p u (Frame 3800 3800)"
  have v: "dispFactor v = 1 / 2" "\<not> mounted2 v"
    "tweensRunning v = [\<lparr>tweenStart = 3000, tweenFrom = Some 0\<rparr>]"
    unfolding v_def using u
    by (simp_all add: gsapTick_def tweenRender_def orDefault_def Let_def)
  define w where "w = handle2 ?p v (Frame 5000 5000)"
  have w: "dispFactor w = 1"
    unfolding w_def using v
    by (simp add: gsapTick_def tweenRender_def onComplete_def orDefault_def Let_def)
  have "foldl (handle2 ?p) m [IntervalFired 3000, Unmount, Frame 3800 3800] = v"
    "foldl (handle2 ?p) m [IntervalFired 3000, Unmount, Frame 3800 3800, Frame 5000 5000] = w"
    unfolding w_def v_def u_def by (simp_all only: foldl.simps)
  with u(1) v(1) w have c: "dispFactor (foldl (handle2 ?p) m [IntervalFired 3000, Unmount]) = 0"
    "dispFactor (foldl (handle2 ?p) m [IntervalFired 3000, Unmount, Frame 3800 3800]) = 1 / 2"
    "dispFactor (foldl (handle2 ?p) m
       [IntervalFired 3000, Unmount, Frame 3800 3800, Frame 5000 5000]) = 1"
    unfolding u_def by simp_all
  from a b c [unfolded m_def] show ?thesis by blast
qed

text \<open>
  Claim C9, amended: unmounting cancels the frame request of the render loop and that
  of the scheduler, and in the displacement component the frame request and the autoplay
  interval, so that none of these callbacks runs afterwards.  In the crossfade and
  noise-warp components any number of frames and interval firings leave the whole state,
  uniforms included, as the unmount left it.  In the displacement component the same
  holds when no tween was running at the unmount; the unmount kills no tween, so a tween
  that was running goes on writing dispFactor until it is complete, but frames and
  interval firings change nothing else (the index advance of its onComplete is dropped),
  and they start no new tween.  Image loads in flight are neither cancelled nor guarded:
  a completion that arrives after the unmount writes the uniforms as it would have
  before (aspect ratios and fit parameters when the aspect ratios settle, the texture
  uniforms when a texture loads).
\<close>

theorem C9_frames_after_unmount:
  assumes "sch = frame \<or> sch = frame_noise"
    and "\<forall>e\<in>set es. isTimerOrFrame e"
    and "u = handle sch cfg s Unmount"
    and "u2 = handle2 p b Unmount"
  shows "raf u = None \<and> \<not> renderRaf u
       \<and> foldl (handle sch cfg) u es = u
       \<and> \<not> renderRaf2 u2 \<and> \<not> autoPlayTimer u2
       \<and> tweensRunning u2 = tweensRunning b
       \<and> (tweensRunning b = [] \<longrightarrow> foldl (handle2 p) u2 es = u2)
       \<and> (\<exists>d tws. foldl (handle2 p) u2 es = u2\<lparr>dispFactor := d, tweensRunning := tws\<rparr>
                   \<and> length tws \<le> length (tweensRunning b))
       \<and> inflight u = inflight s
       \<and> (AspectRatios url1 url2 \<in> set (inflight s) \<longrightarrow>
            uImageAspectRatio1 (handle sch cfg u (ImagesSettled (AspectRatios url1 url2) r1 r2))
              = getImageAspectRatio r1
          \<and> uImageAspectRatio2 (handle sch cfg u (ImagesSettled (AspectRatios url1 url2) r1 r2))
              = getImageAspectRatio r2)
       \<and> (CurrentTexture url1 url2 \<in> set (inflight s) \<longrightarrow>
            uTex1 (handle sch cfg u (TextureLoaded (CurrentTexture url1 url2)))
              = Some (loadedTexture url1))
       \<and> (NextTexture url2 \<in> set (inflight s) \<longrightarrow>
            uTex2 (handle sch cfg u (TextureLoaded (NextTexture url2)))
              = Some (loadedTexture url2))
       \<and> loads u2 = loads b
       \<and> (Texture1Load url1 \<in> set (loads b) \<longrightarrow>
            texture1 (handle2 p u2 (TextureLoaded (Texture1Load url1)))
              = Some (Texture url1 LinearFilter LinearFilter))"
proof -
  have u: "raf u = None" "\<not> renderRaf u" "inflight u = inflight s"
    unfolding assms(3) by (simp_all add: unmount_def)
  from frames_unmounted [OF assms(1) u(1,2) assms(2)]
  have f: "foldl (handle sch cfg) u es = u" .
  have u2: "\<not> renderRaf2 u2" "\<not> autoPlayTimer u2" "\<not> mounted2 u2"
    "tweensRunning u2 = tweensRunning b" "loads u2 = loads b"
    unfolding assms(4) by (simp_all add: mountCleanup_def)
  have f2: "foldl (handle2 p) u2 es = u2" if "tweensRunning b = []"
    using frames_no_tween [OF _ u2(2) assms(2), of p] that u2(4) by simp
  from frames_unmounted2 [OF u2(3,2) assms(2), of p]
  have f3: "\<exists>d tws. foldl (handle2 p) u2 es = u2\<lparr>dispFactor := d, tweensRunning := tws\<rparr>
                   \<and> length tws \<le> length (tweensRunning b)"
    unfolding u2(4) .
  have a: "uImageAspectRatio1 (handle sch cfg u (ImagesSettled (AspectRatios url1 url2) r1 r2))
              = getImageAspectRatio r1
          \<and> uImageAspectRatio2 (handle sch cfg u (ImagesSettled (AspectRatios url1 url2) r1 r2))
              = getImageAspectRatio r2"
    if "AspectRatios url1 url2 \<in> set (inflight s)"
    using that u(3) by (simp add: loadCurrentImages_resume_def Let_def)
  have b: "uTex1 (handle sch cfg u (TextureLoaded (CurrentTexture url1 url2)))
              = Some (loadedTexture url1)"
    if "CurrentTexture url1 url2 \<in> set (inflight s)"
    using that u(3) by simp
  have c: "uTex2 (handle sch cfg u (TextureLoaded (NextTexture url2)))
              = Some (loadedTexture url2)"
    if "NextTexture url2 \<in> set (inflight s)"
    using that u(3) by simp
  have d: "texture1 (handle2 p u2 (TextureLoaded (Texture1Load url1)))
              = Some (Texture url1 LinearFilter LinearFilter)"
    if "Texture1Load url1 \<in> set (loads b)"
    using that u2(5) by simp
  from u f u2(1,2,4,5) f2 f3 a b c d show ?thesis by blast
qed

theorem C9_frames_after_unmount_witness:
  "foldl (handle frame \<lparr>images = [''a.jpg'', ''b.jpg''], width = 960, height = 540,
                         autoPlayMs = 4000, crossfadeMs = 1000\<rparr>)
     (mount \<lparr>images = [''a.jpg'', ''b.jpg''], width = 960, height = 540,
              autoPlayMs = 4000, crossfadeMs = 1000\<rparr> 0)
     [Frame 16 16, Unmount, Frame 32 33, Frame 5000 5001]
   = handle frame \<lparr>images = [''a.jpg'', ''b.jpg''], width = 960, height = 540,
                    autoPlayMs = 4000, crossfadeMs = 1000\<rparr>
       (handle frame \<lparr>images = [''a.jpg'', ''b.jpg''], width = 960, height = 540,
                       autoPlayMs = 4000, crossfadeMs = 1000\<rparr>
          (mount \<lparr>images = [''a.jpg'', ''b.jpg''], width = 960, height = 540,
                   autoPlayMs = 4000, crossfadeMs = 1000\<rparr> 0)
          (Frame 16 16))
       Unmount
   \<and> foldl (handle2 \<lparr>imagesProp = Some [''a.jpg'', ''b.jpg''], image1Prop = None,
                    image2Prop = None, displacementImageProp = None,
                    widthProp = None, heightProp = None,
                    intensity1Prop = None, intensity2Prop = None,
                    angleProp = None, angle1Prop = None, angle2Prop = None,
                    speedInProp = None, easingProp = (\<lambda>x. x), autoPlayProp = Some True\<rparr>)
       (mount2 \<lparr>imagesProp = Some [''a.jpg'', ''b.jpg''], image1Prop = None,
                 image2Prop = None, displacementImageProp = None,
                 widthProp = None, heightProp = None,
                 intensity1Prop = None, intensity2Prop = None,
                 angleProp = None, angle1Prop = None, angle2Prop = None,
                 speedInProp = None, easingProp = (\<lambda>x. x), autoPlayProp = Some True\<rparr>)
       [Unmount, Frame 32 33, IntervalFired 3000, Frame 5000 5001]
     = handle2 \<lparr>imagesProp = Some [''a.jpg'', ''b.jpg''], image1Prop = None,
                  image2Prop = None, displacementImageProp = None,
                  widthProp = None, heightProp = None,
                  intensity1Prop = None, intensity2Prop = None,
                  angleProp = None, angle1Prop = None, angle2Prop = None,
                  speedInProp = None, easingProp = (\<lambda>x. x), autoPlayProp = Some True\<rparr>
         (mount2 \<lparr>imagesProp = Some [''a.jpg'', ''b.jpg''], image1Prop = None,
                   image2Prop = None, displacementImageProp = None,
                   widthProp = None, heightProp = None,
                   intensity1Prop = None, intensity2Prop = None,
                   angleProp = None, angle1Prop = None, angle2Prop = None,
                   speedInProp = None, easingProp = (\<lambda>x. x), autoPlayProp = Some True\<rparr>) Unmount
   \<and> currentIndex
       (foldl (handle2 \<lparr>imagesProp = Some [''a.jpg'', ''b.jpg''], image1Prop = None,
                         image2Prop = None, displacementImageProp = None,
                         widthProp = None, heightProp = None,
                         intensity1Prop = None, intensity2Prop = None,
                         angleProp = None, angle1Prop = None, angle2Prop = None,
                         speedInProp = None, easingProp = (\<lambda>x. x), autoPlayProp = Some True\<rparr>)
          (mount2 \<lparr>imagesProp = Some [''a.jpg'', ''b.jpg''], image1Prop = None,
                    image2Prop = None, displacementImageProp = None,
                    widthProp = None, heightProp = None,
                    intensity1Prop = None, intensity2Prop = None,
                    angleProp = None, angle1Prop = None, angle2Prop = None,
                    speedInProp = None, easingProp = (\<lambda>x. x), autoPlayProp = Some True\<rparr>)
          [IntervalFired 3000, Unmount, Frame 3800 3800, IntervalFired 6000, Frame 5000 5000])
     = Some 0
   \<and> length (tweensRunning
       (foldl (handle2 \<lparr>imagesProp = Some [''a.jpg'', ''b.jpg''], image1Prop = None,
                         image2Prop = None, displacementImageProp = None,
                         widthProp = None, heightProp = None,
                         intensity1Prop = None, intensity2Prop = None,
                         angleProp = None, angle1Prop = None, angle2Prop = None,
                         speedInProp = None, easingProp = (\<lambda>x. x), autoPlayProp = Some True\<rparr>)
          (mount2 \<lparr>imagesProp = Some [''a.jpg'', ''b.jpg''], image1Prop = None,
                    image2Prop = None, displacementImageProp = None,
                    widthProp = None, heightProp = None,
                    intensity1Prop = None, intensity2Prop = None,
                    angleProp = None, angle1Prop = None, angle2Prop = None,
                    speedInProp = None, easingProp = (\<lambda>x. x), autoPlayProp = Some True\<rparr>)
          [IntervalFired 3000, Unmount, Frame 3800 3800, IntervalFired 6000, Frame 5000 5000]))
     \<le> 1"
proof -
  let ?cfg = "\<lparr>images = [''a.jpg'', ''b.jpg''], width = 960, height = 540,
               autoPlayMs = 4000, crossfadeMs = 1000\<rparr>"
  let ?p = "\<lparr>imagesProp = Some [''a.jpg'', ''b.jpg''], image1Prop = None,
              image2Prop = None, displacementImageProp = None,
              widthProp = None, heightProp = None,
              intensity1Prop = None, intensity2Prop = None,
              angleProp = None, angle1Prop = None, angle2Prop = None,
              speedInProp = None, easingProp = (\<lambda>x. x), autoPlayProp = Some True\<rparr>"
  let ?s = "handle frame ?cfg (mount ?cfg 0) (Frame 16 16)"
  let ?b = "handle2 ?p (mount2 ?p) (IntervalFired 3000)"
  let ?es = "[Frame 3800 3800, IntervalFired 6000, Frame 5000 5000]"
  have h0: "frame = frame \<or> frame = frame_noise" by simp
  have h1: "\<forall>e\<in>set [Frame 32 33, Frame 5000 5001]. isTimerOrFrame e" by simp
  have h2: "\<forall>e\<in>set [Frame 32 33, IntervalFired 3000, Frame 5000 5001]. isTimerOrFrame e"
    by simp
  have h3: "\<forall>e\<in>set ?es. isTimerOrFrame e" by simp
  have m: "tweensRunning (mount2 ?p) = []" "autoPlayTimer (mount2 ?p)"
    "currentIndex (mount2 ?p) = Some 0"
    by (simp_all add: mount2_def mountEffect_def startAutoPlay_def loadCurrentImages2_def
        loadImagesForCurrentIndex_def created2_def displacementImg_def imageList_def
        orDefault_def Let_def)
  have a: "foldl (handle frame ?cfg) (handle frame ?cfg ?s Unmount) [Frame 32 33, Frame 5000 5001]
        = handle frame ?cfg ?s Unmount"
    using C9_frames_after_unmount [OF h0 h1 refl refl, where cfg = ?cfg and s = ?s
        and p = ?p and b = ?b]
    by blast
  have b: "foldl (handle2 ?p) (handle2 ?p (mount2 ?p) Unmount)
             [Frame 32 33, IntervalFired 3000, Frame 5000 5001]
        = handle2 ?p (mount2 ?p) Unmount"
    using C9_frames_after_unmount [OF h0 h2 refl refl, where cfg = ?cfg and s = ?s
        and p = ?p and b = "mount2 ?p"] m(1)
    by blast
  have tb: "length (tweensRunning ?b) = 1" "currentIndex (handle2 ?p ?b Unmount) = Some 0"
    using m by (simp_all add: mountCleanup_def)
  from C9_frames_after_unmount [OF h0 h3 refl refl, where cfg = ?cfg and s = ?s
        and p = ?p and b = ?b]
  obtain d tws where "foldl (handle2 ?p) (handle2 ?p ?b Unmount) ?es
                        = (handle2 ?p ?b Unmount)\<lparr>dispFactor := d, tweensRunning := tws\<rparr>"
    and "length tws \<le> length (tweensRunning ?b)"
    by blast
  with tb have c: "currentIndex (foldl (handle2 ?p) (handle2 ?p ?b Unmount) ?es) = Some 0"
    "length (tweensRunning (foldl (handle2 ?p) (handle2 ?p ?b Unmount) ?es)) \<le> 1"
    by simp_all
  from a b c show ?thesis by (simp only: foldl.simps)
qed



end
